theory Spec2Isabelle
  imports Complex_Main
begin

section \<open>JavaScript numbers\<close>

text \<open>
  A JavaScript \<^verbatim>\<open>number\<close> is an IEEE-754 binary64 value: NaN, one of the two infinities,
  or a finite value. A finite value is kept as the rational it denotes; the two zeros are
  identified (\<^verbatim>\<open><\<close>, \<^verbatim>\<open>></\<close>, \<^verbatim>\<open>===\<close> and \<^verbatim>\<open>Number.isFinite\<close> do not tell them apart).
  Every arithmetic result is rounded to the nearest binary64 value, ties to even, with
  gradual underflow (least exponent \<open>-1074\<close>) and overflow to an infinity from \<open>2^1024\<close> on.
\<close>

datatype number = NaN | PosInfinity | NegInfinity | Finite rat

text \<open>The number of binary digits of a positive integer.\<close>

function bit_length :: "int \<Rightarrow> nat" where
  "bit_length n = (if n \<le> 0 then 0 else Suc (bit_length (n div 2)))"
  by pat_completeness auto
termination
  by (relation "measure nat") auto

declare bit_length.simps [simp del]

definition pow2 :: "int \<Rightarrow> rat" where
  "pow2 k = (if 0 \<le> k then 2 ^ nat k else 1 / 2 ^ nat (- k))"

text \<open>The binary exponent \<open>\<lfloor>log\<^sub>2 q\<rfloor>\<close> of a positive rational.\<close>

definition floor_log2 :: "rat \<Rightarrow> int" where
  "floor_log2 q =
     (if 1 \<le> q then int (bit_length \<lfloor>q\<rfloor>) - 1
      else - int (bit_length (\<lceil>1 / q\<rceil> - 1)))"

definition round_half_even :: "rat \<Rightarrow> int" where
  "round_half_even q =
     (let f = \<lfloor>q\<rfloor>; r = q - of_int f
      in if r < 1 / 2 then f
         else if 1 / 2 < r then f + 1
         else if even f then f else f + 1)"

text \<open>
  Rounding of an exact result to binary64: the significand has 53 bits, so the unit in the
  last place is \<open>2^e\<close> with \<open>e = max (\<lfloor>log\<^sub>2 |q|\<rfloor> - 52) (-1074)\<close>.
\<close>

definition round_double :: "rat \<Rightarrow> number" where
  "round_double q =
     (if q = 0 then Finite 0
      else
        let a = \<bar>q\<bar>;
            e = max (floor_log2 a - 52) (- 1074);
            v = of_int (round_half_even (a / pow2 e)) * pow2 e
        in if pow2 1024 \<le> v then (if 0 < q then PosInfinity else NegInfinity)
           else Finite (if 0 < q then v else - v))"

text \<open>The operator \<^verbatim>\<open>+\<close> on numbers.\<close>

fun num_add :: "number \<Rightarrow> number \<Rightarrow> number" where
  "num_add NaN _ = NaN"
| "num_add _ NaN = NaN"
| "num_add PosInfinity NegInfinity = NaN"
| "num_add NegInfinity PosInfinity = NaN"
| "num_add PosInfinity _ = PosInfinity"
| "num_add _ PosInfinity = PosInfinity"
| "num_add NegInfinity _ = NegInfinity"
| "num_add _ NegInfinity = NegInfinity"
| "num_add (Finite a) (Finite b) = round_double (a + b)"

text \<open>
  The operator \<^verbatim>\<open>/\<close> on numbers. A zero divisor is read as \<open>+0\<close>; the program divides
  by the literal \<open>2\<close> and by a positive array length only.
\<close>

fun num_div :: "number \<Rightarrow> number \<Rightarrow> number" where
  "num_div NaN _ = NaN"
| "num_div _ NaN = NaN"
| "num_div (Finite a) PosInfinity = Finite 0"
| "num_div (Finite a) NegInfinity = Finite 0"
| "num_div _ PosInfinity = NaN"
| "num_div _ NegInfinity = NaN"
| "num_div PosInfinity (Finite b) = (if 0 \<le> b then PosInfinity else NegInfinity)"
| "num_div NegInfinity (Finite b) = (if 0 \<le> b then NegInfinity else PosInfinity)"
| "num_div (Finite a) (Finite b) =
     (if b = 0 then (if a = 0 then NaN else if 0 < a then PosInfinity else NegInfinity)
      else round_double (a / b))"

text \<open>The comparisons \<^verbatim>\<open><\<close> and \<^verbatim>\<open>></\<close>: false as soon as one side is NaN.\<close>

fun num_less :: "number \<Rightarrow> number \<Rightarrow> bool" where
  "num_less NaN _ = False"
| "num_less _ NaN = False"
| "num_less (Finite a) (Finite b) = (a < b)"
| "num_less _ NegInfinity = False"
| "num_less NegInfinity _ = True"
| "num_less PosInfinity _ = False"
| "num_less _ PosInfinity = True"

definition num_greater :: "number \<Rightarrow> number \<Rightarrow> bool" where
  "num_greater x y = num_less y x"

text \<open>
  \<^verbatim>\<open>Number.isFinite(v)\<close> takes any value; \<open>None\<close> stands for a value that is not a number
  at run time (\<^verbatim>\<open>undefined\<close>, \<^verbatim>\<open>null\<close>, a missing property).
\<close>

fun Number_isFinite :: "number option \<Rightarrow> bool" where
  "Number_isFinite (Some (Finite _)) = True"
| "Number_isFinite _ = False"

text \<open>An array length as a number: an integer below \<open>2^32\<close>, which binary64 holds exactly.\<close>

definition number_of_length :: "'a list \<Rightarrow> number" where
  "number_of_length xs = Finite (of_nat (length xs))"

text \<open>\<^verbatim>\<open>xs[i]\<close>: \<^verbatim>\<open>undefined\<close> out of range.\<close>

fun index :: "'a list \<Rightarrow> nat \<Rightarrow> 'a option" where
  "index [] _ = None"
| "index (x # xs) 0 = Some x"
| "index (x # xs) (Suc i) = index xs i"

text \<open>\<^verbatim>\<open>a ?? b\<close>: the default replaces a null or undefined value.\<close>

fun nullish :: "'a option \<Rightarrow> 'a \<Rightarrow> 'a" where
  "nullish None d = d"
| "nullish (Some v) d = v"

text \<open>\<^verbatim>\<open>a?.f\<close>: the access is skipped when \<open>a\<close> is null or undefined.\<close>

fun chain :: "'a option \<Rightarrow> ('a \<Rightarrow> 'b option) \<Rightarrow> 'b option" where
  "chain None f = None"
| "chain (Some a) f = f a"

section \<open>Provider payloads\<close>

text \<open>
  The parsed JSON bodies, typed as the provider documents them. Every property may be
  missing or null (\<open>None\<close>). Three property names are renamed because Isabelle reserves
  them: \<^verbatim>\<open>id\<close> is \<open>zoneId\<close>, \<^verbatim>\<open>text\<close> is \<open>descriptionText\<close>, \<^verbatim>\<open>value\<close> is \<open>quantity\<close>.
\<close>

record RawTimeZone =
  zoneId :: "string option"

record RawText =
  descriptionText :: "string option"

record RawCondition =
  type :: "string option"
  description :: "RawText option"
  iconBaseUri :: "string option"

record RawDegrees =
  degrees :: "number option"

record RawDirection =
  degrees :: "number option"
  cardinal :: "string option"

record RawValue =
  quantity :: "number option"

record RawWind =
  direction :: "RawDirection option"
  speed :: "RawValue option"
  gust :: "RawValue option"

record RawHistory =
  maxTemperature :: "RawDegrees option"
  minTemperature :: "RawDegrees option"

record RawVisibility =
  distance :: "number option"

record RawCurrent =
  currentTime :: "string option"
  timeZone :: "RawTimeZone option"
  isDaytime :: "bool option"
  weatherCondition :: "RawCondition option"
  temperature :: "RawDegrees option"
  feelsLikeTemperature :: "RawDegrees option"
  uvIndex :: "number option"
  wind :: "RawWind option"
  thunderstormProbability :: "number option"
  currentConditionsHistory :: "RawHistory option"
  visibility :: "RawVisibility option"

record RawInterval =
  startTime :: "string option"

record RawDate =
  year :: "number option"
  month :: "number option"
  day :: "number option"

record RawSunEvents =
  sunriseTime :: "string option"
  sunsetTime :: "string option"

record RawPercent =
  percent :: "number option"

record RawPrecipitation =
  probability :: "RawPercent option"

record RawBlock =
  weatherCondition :: "RawCondition option"
  uvIndex :: "number option"
  precipitation :: "RawPrecipitation option"
  wind :: "RawWind option"
  cloudCover :: "number option"
  relativeHumidity :: "number option"

record RawDay =
  interval :: "RawInterval option"
  displayDate :: "RawDate option"
  maxTemperature :: "RawDegrees option"
  minTemperature :: "RawDegrees option"
  feelsLikeMaxTemperature :: "RawDegrees option"
  feelsLikeMinTemperature :: "RawDegrees option"
  sunEvents :: "RawSunEvents option"
  daytimeForecast :: "RawBlock option"
  nighttimeForecast :: "RawBlock option"

record RawForecast =
  timeZone :: "RawTimeZone option"
  forecastDays :: "RawDay option list option"

record RawLocation =
  lat :: "number option"
  lng :: "number option"

record RawGeometry =
  location :: "RawLocation option"

record RawResult =
  formatted_address :: "string option"
  place_id :: "string option"
  geometry :: "RawGeometry option"

record RawGeocode =
  status :: "string option"
  error_message :: "string option"
  results :: "RawResult option list option"

text \<open>
  What \<^verbatim>\<open>fetch\<close> resolved to: the flag \<^verbatim>\<open>res.ok\<close>, the status line, and the body that
  \<^verbatim>\<open>res.json()\<close> parses (\<open>None\<close> for the JSON value \<^verbatim>\<open>null\<close>).
\<close>

record 'a Response =
  ok :: bool
  httpStatus :: nat
  statusText :: string
  json :: "'a option"

section \<open>The weather records\<close>

record WeatherCondition =
  type :: string
  description :: string
  iconUrl :: string

record Wind =
  directionDegrees :: number
  directionCardinal :: string
  speedKph :: number
  gustKph :: number

text \<open>
  \<open>currentTime\<close> is declared \<^verbatim>\<open>string\<close>; it is the one field that \<open>getWeatherSummary\<close>
  copies from the payload with no default, so at run time it may be undefined.
\<close>

record WeatherSummary =
  currentTime :: "string option"
  timeZone :: string
  isDaytime :: bool
  weatherCondition :: WeatherCondition
  temperatureC :: number
  feelsLikeC :: number
  uvIndex :: number
  wind :: Wind
  thunderstormProbability :: number
  maxTempC :: number
  minTempC :: number
  visibilityKm :: number

record DailyBlock =
  description :: string
  iconUrl :: string
  uvIndex :: number
  precipPercent :: number
  windKph :: number
  windGustKph :: number
  windDirCardinal :: string
  windDirDegrees :: number
  cloudCover :: "number option"
  humidity :: "number option"

record DisplayDate =
  year :: number
  month :: number
  day :: number

text \<open>
  \<open>dateISO\<close>, \<open>maxTempC\<close> and \<open>minTempC\<close> are declared \<^verbatim>\<open>string\<close> and \<^verbatim>\<open>number\<close>.
  \<open>computeForecastTemperatureStats\<close> guards each of them at run time
  (\<^verbatim>\<open>?.dateISO ?? null\<close>, \<^verbatim>\<open>Number.isFinite\<close>), so the record lets them be absent: \<open>None\<close>.
\<close>

record DailyForecast =
  dateISO :: "string option"
  displayDate :: DisplayDate
  maxTempC :: "number option"
  minTempC :: "number option"
  feelsLikeMaxC :: "number option"
  feelsLikeMinC :: "number option"
  sunriseTime :: "string option"
  sunsetTime :: "string option"
  daytime :: DailyBlock
  nighttime :: DailyBlock

record WeatherWithForecast =
  current :: WeatherSummary
  forecast :: "DailyForecast list option"

record ForecastTemperatureStats =
  periodDays :: nat
  periodStartISO :: "string option"
  periodEndISO :: "string option"
  minTempC :: number
  maxTempC :: number
  avgTempC :: number

record GeoLocation =
  lat :: "number option"
  lng :: "number option"

text \<open>
  The fields of a hit are declared \<^verbatim>\<open>string\<close> and \<^verbatim>\<open>number\<close>; \<open>geocode\<close> copies them
  from the payload through casts that do nothing at run time, so a missing property
  stays missing.
\<close>

record GeocodeHit =
  formatted_address :: "string option"
  place_id :: "string option"
  location :: GeoLocation

section \<open>computeForecastTemperatureStats\<close>

text \<open>
  The argument is an array, a \<open>WeatherWithForecast\<close> object, or (guarded by \<^verbatim>\<open>input?.\<close>)
  a null or undefined value.
\<close>

datatype stats_input =
  ArrayInput "DailyForecast list"
| ObjectInput WeatherWithForecast
| NullishInput

fun forecast_of :: "stats_input \<Rightarrow> DailyForecast list" where
  "forecast_of (ArrayInput xs) = xs"
| "forecast_of (ObjectInput w) = nullish (forecast w) []"
| "forecast_of NullishInput = []"

text \<open>\<^verbatim>\<open>Number.isFinite(v) ? v : 0\<close>\<close>

fun finite_or_zero :: "number option \<Rightarrow> number" where
  "finite_or_zero (Some (Finite q)) = Finite q"
| "finite_or_zero _ = Finite 0"

definition dayMax :: "DailyForecast \<Rightarrow> number" where
  "dayMax d = finite_or_zero (DailyForecast.maxTempC d)"

definition dayMin :: "DailyForecast \<Rightarrow> number" where
  "dayMin d = finite_or_zero (DailyForecast.minTempC d)"

text \<open>The three variables of the loop.\<close>

record loop_vars =
  maxTemp :: number
  minTemp :: number
  avgAccumulator :: number

definition loop_init :: loop_vars where
  "loop_init = \<lparr>maxTemp = NegInfinity, minTemp = PosInfinity, avgAccumulator = Finite 0\<rparr>"

definition loop_body :: "loop_vars \<Rightarrow> DailyForecast \<Rightarrow> loop_vars" where
  "loop_body s d =
     \<lparr>maxTemp = (if num_greater (dayMax d) (maxTemp s) then dayMax d else maxTemp s),
      minTemp = (if num_less (dayMin d) (minTemp s) then dayMin d else minTemp s),
      avgAccumulator =
        num_add (avgAccumulator s) (num_div (num_add (dayMax d) (dayMin d)) (Finite 2))\<rparr>"

fun loop :: "loop_vars \<Rightarrow> DailyForecast list \<Rightarrow> loop_vars" where
  "loop s [] = s"
| "loop s (d # ds) = loop (loop_body s d) ds"

definition empty_stats :: ForecastTemperatureStats where
  "empty_stats =
     \<lparr>periodDays = 0, periodStartISO = None, periodEndISO = None,
      minTempC = Finite 0, maxTempC = Finite 0, avgTempC = Finite 0\<rparr>"

definition computeForecastTemperatureStats :: "stats_input \<Rightarrow> ForecastTemperatureStats" where
  "computeForecastTemperatureStats input =
     (let forecast = forecast_of input
      in if length forecast = 0 then empty_stats
         else
           let s = loop loop_init forecast;
               avgTemp = num_div (avgAccumulator s) (number_of_length forecast)
           in \<lparr>periodDays = length forecast,
               periodStartISO = chain (index forecast 0) dateISO,
               periodEndISO = chain (index forecast (length forecast - 1)) dateISO,
               minTempC = (if Number_isFinite (Some (minTemp s)) then minTemp s else Finite 0),
               maxTempC = (if Number_isFinite (Some (maxTemp s)) then maxTemp s else Finite 0),
               avgTempC = (if Number_isFinite (Some avgTemp) then avgTemp else Finite 0)\<rparr>)"

section \<open>Errors\<close>

text \<open>
  Every \<^verbatim>\<open>throw new Error(msg)\<close> is \<open>Error msg\<close>; \<open>TypeError\<close> is what the engine raises
  when a property is read from null or undefined without \<^verbatim>\<open>?.\<close>.
\<close>

datatype error = Error string | TypeError

definition digit :: "nat \<Rightarrow> char" where
  "digit n = ''0123456789'' ! (n mod 10)"

fun decimal :: "nat \<Rightarrow> string" where
  "decimal n = (if n < 10 then [digit n] else decimal (n div 10) @ [digit n])"

declare decimal.simps [simp del]

definition MissingConfiguration :: error where
  "MissingConfiguration = Error ''Missing GOOGLE_MAPS_API_KEY in app config.''"

definition NetworkError :: "nat \<Rightarrow> string \<Rightarrow> error" where
  "NetworkError code txt = Error (''Network error: '' @ decimal code @ '' '' @ txt)"

definition InvalidResponse :: error where
  "InvalidResponse = Error ''Invalid response from Weather API''"

definition GeocodeFailed :: "string \<Rightarrow> error" where
  "GeocodeFailed msg = Error msg"

section \<open>Truthiness\<close>

text \<open>A string is truthy when it is present and not empty; a boolean when it is \<^verbatim>\<open>true\<close>.\<close>

fun truthy_string :: "string option \<Rightarrow> bool" where
  "truthy_string None = False"
| "truthy_string (Some s) = (s \<noteq> [])"

fun truthy_bool :: "bool option \<Rightarrow> bool" where
  "truthy_bool None = False"
| "truthy_bool (Some b) = b"

text \<open>\<^verbatim>\<open>a || b\<close> with a string \<open>b\<close>.\<close>

fun or_string :: "string option \<Rightarrow> string \<Rightarrow> string" where
  "or_string None b = b"
| "or_string (Some s) b = (if s \<noteq> [] then s else b)"

text \<open>\<^verbatim>\<open>base ? `${base}.png` : ""\<close>\<close>

fun icon_url :: "string option \<Rightarrow> string" where
  "icon_url None = []"
| "icon_url (Some base) = (if base \<noteq> [] then base @ ''.png'' else [])"

section \<open>getWeatherSummary\<close>

text \<open>
  The arguments are the configured API key and the response that \<^verbatim>\<open>fetch\<close> resolved to;
  the coordinates only go into the request URL.
\<close>

definition getWeatherSummary :: "string option \<Rightarrow> RawCurrent Response \<Rightarrow> error + WeatherSummary" where
  "getWeatherSummary api_key res =
     (if \<not> truthy_string api_key then Inl MissingConfiguration
      else if \<not> ok res then Inl (NetworkError (httpStatus res) (statusText res))
      else if json res = None \<or> chain (json res) RawCurrent.weatherCondition = None
        then Inl InvalidResponse
      else
        let data = json res;
            iconUrl = icon_url (chain (chain data RawCurrent.weatherCondition) iconBaseUri)
        in Inr
          \<lparr>WeatherSummary.currentTime = chain data RawCurrent.currentTime,
           timeZone = nullish (chain (chain data RawCurrent.timeZone) zoneId) ''Unknown'',
           isDaytime = truthy_bool (chain data RawCurrent.isDaytime),
           weatherCondition =
             \<lparr>WeatherCondition.type =
                nullish (chain (chain data RawCurrent.weatherCondition) RawCondition.type) ''UNKNOWN'',
              WeatherCondition.description =
                nullish (chain (chain (chain data RawCurrent.weatherCondition)
                  RawCondition.description) descriptionText) ''Unknown'',
              WeatherCondition.iconUrl = iconUrl\<rparr>,
           temperatureC = nullish (chain (chain data temperature) RawDegrees.degrees) (Finite 0),
           feelsLikeC = nullish (chain (chain data feelsLikeTemperature) RawDegrees.degrees) (Finite 0),
           uvIndex = nullish (chain data RawCurrent.uvIndex) (Finite 0),
           wind =
             \<lparr>directionDegrees =
                nullish (chain (chain (chain data RawCurrent.wind) direction) RawDirection.degrees) (Finite 0),
              directionCardinal =
                nullish (chain (chain (chain data RawCurrent.wind) direction) cardinal) ''UNKNOWN'',
              speedKph = nullish (chain (chain (chain data RawCurrent.wind) speed) quantity) (Finite 0),
              gustKph = nullish (chain (chain (chain data RawCurrent.wind) gust) quantity) (Finite 0)\<rparr>,
           thunderstormProbability = nullish (chain data RawCurrent.thunderstormProbability) (Finite 0),
           maxTempC =
             nullish (chain (chain (chain data currentConditionsHistory) RawHistory.maxTemperature)
               RawDegrees.degrees) (Finite 0),
           minTempC =
             nullish (chain (chain (chain data currentConditionsHistory) RawHistory.minTemperature)
               RawDegrees.degrees) (Finite 0),
           visibilityKm = nullish (chain (chain data visibility) distance) (Finite 0)\<rparr>)"

section \<open>getDailyForecast\<close>

definition toBlock :: "RawBlock option \<Rightarrow> DailyBlock" where
  "toBlock block =
     \<lparr>DailyBlock.description =
        nullish (chain (chain (chain block RawBlock.weatherCondition) RawCondition.description)
          descriptionText) ''Unknown'',
      DailyBlock.iconUrl = icon_url (chain (chain block RawBlock.weatherCondition) iconBaseUri),
      DailyBlock.uvIndex = nullish (chain block RawBlock.uvIndex) (Finite 0),
      precipPercent = nullish (chain (chain (chain block precipitation) probability) percent) (Finite 0),
      windKph = nullish (chain (chain (chain block RawBlock.wind) speed) quantity) (Finite 0),
      windGustKph = nullish (chain (chain (chain block RawBlock.wind) gust) quantity) (Finite 0),
      windDirCardinal = nullish (chain (chain (chain block RawBlock.wind) direction) cardinal) ''UNKNOWN'',
      windDirDegrees =
        nullish (chain (chain (chain block RawBlock.wind) direction) RawDirection.degrees) (Finite 0),
      cloudCover = chain block RawBlock.cloudCover,
      humidity = chain block relativeHumidity\<rparr>"

text \<open>The function mapped over \<^verbatim>\<open>data?.forecastDays ?? []\<close>.\<close>

definition toDay :: "RawDay option \<Rightarrow> DailyForecast" where
  "toDay d =
     \<lparr>dateISO = Some (nullish (chain (chain d interval) startTime) []),
      displayDate =
        \<lparr>DisplayDate.year = nullish (chain (chain d RawDay.displayDate) RawDate.year) (Finite 0),
         DisplayDate.month = nullish (chain (chain d RawDay.displayDate) RawDate.month) (Finite 0),
         DisplayDate.day = nullish (chain (chain d RawDay.displayDate) RawDate.day) (Finite 0)\<rparr>,
      DailyForecast.maxTempC =
        Some (nullish (chain (chain d RawDay.maxTemperature) RawDegrees.degrees) (Finite 0)),
      DailyForecast.minTempC =
        Some (nullish (chain (chain d RawDay.minTemperature) RawDegrees.degrees) (Finite 0)),
      feelsLikeMaxC = chain (chain d feelsLikeMaxTemperature) RawDegrees.degrees,
      feelsLikeMinC = chain (chain d feelsLikeMinTemperature) RawDegrees.degrees,
      sunriseTime = chain (chain d sunEvents) RawSunEvents.sunriseTime,
      sunsetTime = chain (chain d sunEvents) RawSunEvents.sunsetTime,
      daytime = toBlock (chain d daytimeForecast),
      nighttime = toBlock (chain d nighttimeForecast)\<rparr>"

definition getDailyForecast :: "string option \<Rightarrow> RawForecast Response \<Rightarrow> error + DailyForecast list" where
  "getDailyForecast api_key res =
     (if \<not> truthy_string api_key then Inl MissingConfiguration
      else if \<not> ok res then Inl (NetworkError (httpStatus res) (statusText res))
      else Inr (map toDay (nullish (chain (json res) forecastDays) [])))"

section \<open>geocode\<close>

text \<open>The function mapped over \<^verbatim>\<open>data.results\<close>; none of its property reads is guarded.\<close>

fun toHit :: "RawResult option \<Rightarrow> error + GeocodeHit" where
  "toHit None = Inl TypeError"
| "toHit (Some r) =
     (case geometry r of
        None \<Rightarrow> Inl TypeError
      | Some g \<Rightarrow>
          (case RawGeometry.location g of
             None \<Rightarrow> Inl TypeError
           | Some l \<Rightarrow>
               Inr \<lparr>formatted_address = RawResult.formatted_address r,
                    place_id = RawResult.place_id r,
                    location = \<lparr>lat = RawLocation.lat l, lng = RawLocation.lng l\<rparr>\<rparr>))"

text \<open>\<^verbatim>\<open>Array.prototype.map\<close>, left to right; the first exception ends it.\<close>

fun mapHits :: "RawResult option list \<Rightarrow> error + GeocodeHit list" where
  "mapHits [] = Inr []"
| "mapHits (r # rs) =
     (case toHit r of
        Inl e \<Rightarrow> Inl e
      | Inr h \<Rightarrow> (case mapHits rs of Inl e \<Rightarrow> Inl e | Inr hs \<Rightarrow> Inr (h # hs)))"

definition geocode :: "string option \<Rightarrow> RawGeocode Response \<Rightarrow> error + GeocodeHit list" where
  "geocode api_key res =
     (if \<not> truthy_string api_key then Inl MissingConfiguration
      else if \<not> ok res then Inl (NetworkError (httpStatus res) (statusText res))
      else
        case json res of
          None \<Rightarrow> Inl TypeError
        | Some data \<Rightarrow>
            if status data \<noteq> Some ''OK''
            then Inl (GeocodeFailed
                   (or_string (error_message data) (or_string (status data) ''Geocoding failed'')))
            else (case results data of None \<Rightarrow> Inl TypeError | Some rs \<Rightarrow> mapHits rs))"

section \<open>Test data and auxiliary notions\<close>

text \<open>A forecast day with the given date and temperatures, every other field at its default.\<close>

definition example_day :: "string \<Rightarrow> number option \<Rightarrow> number option \<Rightarrow> DailyForecast" where
  "example_day date hi lo =
     (toDay None)\<lparr>dateISO := Some date, DailyForecast.maxTempC := hi, DailyForecast.minTempC := lo\<rparr>"

text \<open>The day with each temperature that is not a finite number replaced by \<open>0\<close>.\<close>

definition zero_fill :: "DailyForecast \<Rightarrow> DailyForecast" where
  "zero_fill d =
     d\<lparr>DailyForecast.maxTempC :=
         (if Number_isFinite (DailyForecast.maxTempC d) then DailyForecast.maxTempC d
          else Some (Finite 0)),
       DailyForecast.minTempC :=
         (if Number_isFinite (DailyForecast.minTempC d) then DailyForecast.minTempC d
          else Some (Finite 0))\<rparr>"


text \<open>A rational is a binary64 value when rounding leaves it unchanged.\<close>

definition is_double :: "rat \<Rightarrow> bool" where
  "is_double q \<longleftrightarrow> round_double q = Finite q"



text \<open>The rational that a finite number denotes.\<close>

fun value_of :: "number \<Rightarrow> rat" where
  "value_of (Finite q) = q"
| "value_of _ = 0"

text \<open>
  The sum that the loop has accumulated is a finite number between \<open>n\<close> times the least
  \<open>dayMin\<close> and \<open>n\<close> times the greatest \<open>dayMax\<close>, for the \<open>n\<close> days of the forecast.
\<close>

definition sum_in_range :: "DailyForecast list \<Rightarrow> bool" where
  "sum_in_range xs \<longleftrightarrow>
     Number_isFinite (Some (avgAccumulator (loop loop_init xs)))
     \<and> of_nat (length xs) * value_of (minTemp (loop loop_init xs))
          \<le> value_of (avgAccumulator (loop loop_init xs))
     \<and> value_of (avgAccumulator (loop loop_init xs))
          \<le> of_nat (length xs) * value_of (maxTemp (loop loop_init xs))"






text \<open>
  The average as the specification words it: the sum over the days of \<open>(dayMax + dayMin) / 2\<close>,
  added from left to right, divided once by the number of days.
\<close>

definition spec_average :: "DailyForecast list \<Rightarrow> number" where
  "spec_average xs =
     num_div
       (foldl (\<lambda>acc d. num_add acc (num_div (num_add (dayMax d) (dayMin d)) (Finite 2)))
          (Finite 0) xs)
       (number_of_length xs)"

text \<open>\<^verbatim>\<open>Number.MAX_VALUE\<close>, the largest finite number (about \<open>1.7976931348623157e308\<close>).\<close>

definition MAX_VALUE :: rat where
  "MAX_VALUE = of_int (2 ^ 53 - 1) * 2 ^ 971"

text \<open>The binary64 value that the literal \<^verbatim>\<open>0.1\<close> denotes.\<close>

definition one_tenth :: rat where
  "one_tenth = 3602879701896397 / 2 ^ 55"

section \<open>Rounding\<close>

lemma bit_length_bound: "n < 2 ^ k \<Longrightarrow> bit_length n \<le> k"
proof (induction k arbitrary: n)
  case 0
  then show ?case by (simp add: bit_length.simps)
next
  case (Suc k)
  show ?case
  proof (cases "n \<le> 0")
    case True
    then show ?thesis by (simp add: bit_length.simps)
  next
    case False
    from Suc.prems have "n div 2 < 2 ^ k" by simp
    then have "bit_length (n div 2) \<le> k" by (rule Suc.IH)
    with False show ?thesis by (subst bit_length.simps) simp
  qed
qed

lemma bit_length_pos: "0 < n \<Longrightarrow> 0 < bit_length n"
  by (subst bit_length.simps) simp

lemma bit_length_half: "bit_length (n div 2) = bit_length n - 1"
proof (cases "n \<le> 0")
  case True
  then have "n div 2 \<le> 0" by simp
  then show ?thesis using True by (simp add: bit_length.simps)
next
  case False
  then show ?thesis by (subst (2) bit_length.simps) simp
qed

lemma bit_length_div_pow2: "bit_length (n div 2 ^ k) = bit_length n - k"
proof (induction k arbitrary: n)
  case 0
  then show ?case by simp
next
  case (Suc k)
  have "n div 2 ^ Suc k = (n div 2) div 2 ^ k"
    by (simp add: zdiv_zmult2_eq)
  then show ?case by (simp add: Suc.IH bit_length_half)
qed

lemma pow2_neg: "pow2 (- int n) = 1 / 2 ^ n"
  by (cases "n = 0") (simp_all add: pow2_def)

lemma pow2_nat: "pow2 (int n) = 2 ^ n"
  by (simp add: pow2_def)

lemma round_half_even_of_int: "round_half_even (of_int k) = k"
  by (simp add: round_half_even_def)

text \<open>A rational \<open>m / 2^k \<ge> 1\<close> with a numerator below \<open>2^53\<close> is a binary64 value.\<close>

lemma round_double_dyadic:
  assumes m: "0 < m" "m < 2 ^ 53" and k: "2 ^ k \<le> m"
  shows "round_double (of_int m / 2 ^ k) = Finite (of_int m / 2 ^ k)"
proof -
  define q :: rat where "q = of_int m / 2 ^ k"
  define b where "b = bit_length m"
  have q1: "1 \<le> q"
  proof -
    have "(2::rat) ^ k \<le> of_int m" using k by (metis of_int_le_iff of_int_numeral of_int_power)
    then show ?thesis by (simp add: q_def)
  qed
  have fl: "\<lfloor>q\<rfloor> = m div 2 ^ k"
    unfolding q_def by (metis floor_divide_of_int_eq of_int_numeral of_int_power)
  have bl: "bit_length \<lfloor>q\<rfloor> = b - k"
    by (simp add: fl b_def bit_length_div_pow2)
  have "0 < m div 2 ^ k" using k m by (simp add: pos_imp_zdiv_pos_iff)
  then have "0 < \<lfloor>q\<rfloor>" by (simp add: fl)
  then have bk: "k < b" using bit_length_pos [of "\<lfloor>q\<rfloor>"] bl by simp
  have b53: "b \<le> 53" unfolding b_def using m(2) by (rule bit_length_bound)
  define j where "j = 53 - b"
  define n where "n = k + j"
  have flog: "floor_log2 q = int (b - k) - 1" using q1 by (simp add: floor_log2_def bl)
  have "floor_log2 q - 52 = - int n" using bk b53 by (simp add: flog j_def n_def)
  then have e: "max (floor_log2 q - 52) (- 1074) = - int n"
    using b53 bk by (simp add: n_def j_def)
  have p: "pow2 (- int n) = 1 / 2 ^ n" by (rule pow2_neg)
  have sc: "q / pow2 (- int n) = of_int (m * 2 ^ j)"
    unfolding p by (simp add: q_def n_def power_add)
  have v: "of_int (round_half_even (q / pow2 (- int n))) * pow2 (- int n) = q"
    unfolding sc round_half_even_of_int unfolding p by (simp add: q_def n_def power_add)
  have "q \<le> of_int m" unfolding q_def using m by (simp add: divide_le_eq_1 mult_imp_div_pos_le)
  also have "(of_int m :: rat) < 2 ^ 53"
    using m(2) by (metis of_int_less_iff of_int_numeral of_int_power)
  also have "\<dots> \<le> pow2 1024" by (simp add: pow2_def)
  finally have nov: "\<not> pow2 1024 \<le> q" by simp
  have pos: "0 < q" "\<bar>q\<bar> = q" using q1 by simp_all
  have "round_double q = Finite q"
    using pos nov by (simp add: round_double_def Let_def e v)
  then show ?thesis by (simp add: q_def)
qed

lemma round_double_pos_int:
  assumes "0 < m" "m < 2 ^ 53"
  shows "round_double (of_int m) = Finite (of_int m)"
  using round_double_dyadic [of m 0] assms by simp

lemma round_double_numeral:
  "numeral w < (2::int) ^ 53 \<Longrightarrow> round_double (numeral w) = Finite (numeral w)"
  using round_double_pos_int [of "numeral w"] by simp

lemma round_double_zero: "round_double 0 = Finite 0"
  by (simp add: round_double_def)

lemma bit_length_double: "0 < n \<Longrightarrow> bit_length (2 * n) = Suc (bit_length n)"
  by (subst bit_length.simps) simp

lemma bit_length_mult_pow2: "0 < n \<Longrightarrow> bit_length (n * 2 ^ k) = bit_length n + k"
proof (induction k)
  case 0
  then show ?case by simp
next
  case (Suc k)
  have pos: "0 < n * 2 ^ k" using Suc.prems by simp
  have "bit_length (n * 2 ^ Suc k) = bit_length (2 * (n * 2 ^ k))"
    by (simp add: mult.left_commute)
  also have "\<dots> = Suc (bit_length (n * 2 ^ k))" using pos by (rule bit_length_double)
  finally show ?case using Suc by simp
qed

text \<open>
  An integer multiple \<open>m * 2^k\<close> of a power of two, with \<open>m\<close> below \<open>2^53\<close>, is a binary64
  value unless it reaches \<open>2^1024\<close>, where it overflows.
\<close>

lemma round_double_int_pow2:
  assumes m: "0 < m" "m < 2 ^ 53"
  shows "round_double (of_int m * 2 ^ k) =
           (if (2::rat) ^ 1024 \<le> of_int m * 2 ^ k then PosInfinity else Finite (of_int m * 2 ^ k))"
proof -
  define q :: rat where "q = of_int m * 2 ^ k"
  define b where "b = bit_length m"
  have qi: "q = of_int (m * 2 ^ k)" by (simp add: q_def)
  have mk: "0 < m * 2 ^ k" using m by simp
  then have q1: "1 \<le> q" unfolding qi by (metis int_one_le_iff_zero_less of_int_1 of_int_le_iff)
  have "\<lfloor>q\<rfloor> = m * 2 ^ k" unfolding qi by (rule floor_of_int)
  then have bl: "bit_length \<lfloor>q\<rfloor> = b + k"
    using m by (simp add: b_def bit_length_mult_pow2)
  have b53: "b \<le> 53" unfolding b_def using m(2) by (rule bit_length_bound)
  have b0: "0 < b" unfolding b_def using m by (simp add: bit_length_pos)
  define j where "j = 53 - b"
  have flog: "floor_log2 q = int (b + k) - 1" using q1 by (simp add: floor_log2_def bl)
  have e: "max (floor_log2 q - 52) (- 1074) = int k - int j"
    using b0 b53 by (simp add: flog j_def)
  have p: "pow2 (int k - int j) * 2 ^ j = 2 ^ k"
  proof (cases "j \<le> k")
    case True
    then have "int k - int j = int (k - j)" by simp
    then have "pow2 (int k - int j) = 2 ^ (k - j)" by (simp only: pow2_nat)
    moreover have "(2::rat) ^ k = 2 ^ (k - j) * 2 ^ j" using True by (simp flip: power_add)
    ultimately show ?thesis by simp
  next
    case False
    then have "int k - int j = - int (j - k)" by simp
    then have "pow2 (int k - int j) = 1 / 2 ^ (j - k)" by (simp only: pow2_neg)
    moreover have "(2::rat) ^ j = 2 ^ (j - k) * 2 ^ k" using False by (simp flip: power_add)
    ultimately show ?thesis by simp
  qed
  have pne: "pow2 (int k - int j) \<noteq> 0" using p by auto
  have sc: "q / pow2 (int k - int j) = of_int (m * 2 ^ j)"
  proof -
    have "q = of_int m * (pow2 (int k - int j) * 2 ^ j)" by (simp add: q_def p)
    then show ?thesis using pne by simp
  qed
  have v: "of_int (round_half_even (q / pow2 (int k - int j))) * pow2 (int k - int j) = q"
    unfolding sc round_half_even_of_int using p by (simp add: q_def mult.assoc mult.commute)
  have pos: "0 < q" "\<bar>q\<bar> = q" "q \<noteq> 0" using q1 by simp_all
  have "round_double q = (if pow2 1024 \<le> q then PosInfinity else Finite q)"
    using pos by (simp add: round_double_def Let_def e v)
  moreover have "pow2 1024 = 2 ^ 1024" by (simp add: pow2_def)
  ultimately show ?thesis by (simp add: q_def)
qed

lemma floor_rat_numeral_div:
  "\<lfloor>numeral a / numeral b :: rat\<rfloor> = numeral a div numeral b"
  by (metis floor_divide_of_int_eq of_int_numeral)

lemma ceiling_rat_numeral_div:
  "\<lceil>numeral a / numeral b :: rat\<rceil> = - (- numeral a div numeral b)"
  using ceiling_divide_eq_div [of "numeral a" "numeral b", where ?'a = rat] by simp




lemma round_half_even_near: "\<bar>of_int (round_half_even x) - x\<bar> \<le> 1 / 2"
proof -
  have "of_int \<lfloor>x\<rfloor> \<le> x" "x < of_int \<lfloor>x\<rfloor> + 1" by linarith+
  then show ?thesis by (auto simp: round_half_even_def Let_def)
qed

lemma pow2_pos: "0 < pow2 k"
  by (simp add: pow2_def)

text \<open>A finite result of rounding is within half a unit in the last place of the exact value.\<close>

lemma round_double_near:
  assumes "round_double q = Finite v"
  shows "\<bar>v - q\<bar> \<le> pow2 (max (floor_log2 \<bar>q\<bar> - 52) (- 1074)) / 2"
proof (cases "q = 0")
  case True
  then show ?thesis using assms pow2_pos [of "max (floor_log2 \<bar>q\<bar> - 52) (- 1074)"]
    by (simp add: round_double_def)
next
  case False
  define e where "e = max (floor_log2 \<bar>q\<bar> - 52) (- 1074)"
  define w where "w = of_int (round_half_even (\<bar>q\<bar> / pow2 e)) * pow2 e"
  have p: "0 < pow2 e" by (rule pow2_pos)
  have "\<bar>of_int (round_half_even (\<bar>q\<bar> / pow2 e)) - \<bar>q\<bar> / pow2 e\<bar> \<le> 1 / 2"
    by (rule round_half_even_near)
  then have "\<bar>of_int (round_half_even (\<bar>q\<bar> / pow2 e)) - \<bar>q\<bar> / pow2 e\<bar> * pow2 e \<le> 1 / 2 * pow2 e"
    using p by (simp only: mult_le_cancel_right_pos)
  moreover have "\<bar>of_int (round_half_even (\<bar>q\<bar> / pow2 e)) - \<bar>q\<bar> / pow2 e\<bar> * pow2 e = \<bar>w - \<bar>q\<bar>\<bar>"
  proof -
    have "\<bar>pow2 e\<bar> = pow2 e" using p by simp
    then have "\<bar>of_int (round_half_even (\<bar>q\<bar> / pow2 e)) - \<bar>q\<bar> / pow2 e\<bar> * pow2 e
        = \<bar>(of_int (round_half_even (\<bar>q\<bar> / pow2 e)) - \<bar>q\<bar> / pow2 e) * pow2 e\<bar>"
      by (simp only: abs_mult)
    also have "(of_int (round_half_even (\<bar>q\<bar> / pow2 e)) - \<bar>q\<bar> / pow2 e) * pow2 e = w - \<bar>q\<bar>"
      using p by (simp add: w_def left_diff_distrib)
    finally show ?thesis .
  qed
  ultimately have near: "\<bar>w - \<bar>q\<bar>\<bar> \<le> pow2 e / 2" by simp
  from assms False have "v = (if 0 < q then w else - w)"
    by (simp add: round_double_def Let_def e_def w_def split: if_splits)
  then have "\<bar>v - q\<bar> = \<bar>w - \<bar>q\<bar>\<bar>" by (cases "0 < q") auto
  then show ?thesis using near by (simp add: e_def)
qed


















section \<open>Array access\<close>

lemma index_nth: "i < length xs \<Longrightarrow> index xs i = Some (xs ! i)"
proof (induction xs arbitrary: i)
  case Nil
  then show ?case by simp
next
  case (Cons x xs)
  then show ?case by (cases i) simp_all
qed

lemma index_first: "xs \<noteq> [] \<Longrightarrow> index xs 0 = Some (hd xs)"
  by (cases xs) simp_all

lemma index_last: "xs \<noteq> [] \<Longrightarrow> index xs (length xs - Suc 0) = Some (last xs)"
  by (simp add: index_nth last_conv_nth)

section \<open>The empty forecast\<close>

text \<open>
  C1. On an empty forecast, passed as a bare list or inside a \<open>WeatherWithForecast\<close>
  object, \<open>computeForecastTemperatureStats\<close> returns exactly the record with
  \<open>periodDays = 0\<close>, both period bounds null and the three temperatures \<open>0\<close>. For a bare list
  \<open>xs\<close>, and for an object whose forecast is \<open>xs\<close>, \<open>periodDays\<close> is \<open>0\<close> if and only if \<open>xs\<close> is
  empty; for any input, if and only if the forecast it holds is empty. The function returns
  a value in every case: it has no error result.
\<close>

theorem empty_forecast_sentinel:
  "computeForecastTemperatureStats (ArrayInput []) =
     \<lparr>periodDays = 0, periodStartISO = None, periodEndISO = None,
      minTempC = Finite 0, maxTempC = Finite 0, avgTempC = Finite 0\<rparr>
   \<and> computeForecastTemperatureStats (ObjectInput \<lparr>current = c, forecast = Some []\<rparr>) =
     \<lparr>periodDays = 0, periodStartISO = None, periodEndISO = None,
      minTempC = Finite 0, maxTempC = Finite 0, avgTempC = Finite 0\<rparr>
   \<and> (periodDays (computeForecastTemperatureStats (ArrayInput xs)) = 0 \<longleftrightarrow> xs = [])
   \<and> (periodDays (computeForecastTemperatureStats
          (ObjectInput \<lparr>current = c, forecast = Some xs\<rparr>)) = 0 \<longleftrightarrow> xs = [])
   \<and> (periodDays (computeForecastTemperatureStats input) = 0 \<longleftrightarrow> forecast_of input = [])"
  by (simp add: computeForecastTemperatureStats_def empty_stats_def Let_def)

section \<open>The period bounds\<close>

text \<open>
  C4. On a non-empty forecast, \<open>periodStartISO\<close> is the \<open>dateISO\<close> of the first element and
  \<open>periodEndISO\<close> the \<open>dateISO\<close> of the last element of the input as it was passed,
  whatever the order of the dates: nothing is sorted.
\<close>

theorem period_bounds_first_last:
  assumes "forecast_of input \<noteq> []"
  shows "periodStartISO (computeForecastTemperatureStats input) = dateISO (hd (forecast_of input))
       \<and> periodEndISO (computeForecastTemperatureStats input) = dateISO (last (forecast_of input))"
  using assms
  by (simp add: computeForecastTemperatureStats_def Let_def index_first index_last)

text \<open>Three days out of chronological order: the bounds are the first and the last one passed.\<close>

theorem period_bounds_first_last_witness:
  "periodStartISO (computeForecastTemperatureStats (ArrayInput
      [example_day ''2025-10-26T07:00:00Z'' (Some (Finite 20)) (Some (Finite 10)),
       example_day ''2025-10-24T07:00:00Z'' (Some (Finite 18)) (Some (Finite 9)),
       example_day ''2025-10-25T07:00:00Z'' (Some (Finite 19)) (Some (Finite 8))]))
     = Some ''2025-10-26T07:00:00Z''
   \<and> periodEndISO (computeForecastTemperatureStats (ArrayInput
      [example_day ''2025-10-26T07:00:00Z'' (Some (Finite 20)) (Some (Finite 10)),
       example_day ''2025-10-24T07:00:00Z'' (Some (Finite 18)) (Some (Finite 9)),
       example_day ''2025-10-25T07:00:00Z'' (Some (Finite 19)) (Some (Finite 8))]))
     = Some ''2025-10-25T07:00:00Z''"
  using period_bounds_first_last [of "ArrayInput
      [example_day ''2025-10-26T07:00:00Z'' (Some (Finite 20)) (Some (Finite 10)),
       example_day ''2025-10-24T07:00:00Z'' (Some (Finite 18)) (Some (Finite 9)),
       example_day ''2025-10-25T07:00:00Z'' (Some (Finite 19)) (Some (Finite 8))]"]
  by (simp add: example_day_def)

section \<open>The wrapped input\<close>

text \<open>
  C5. For every forecast \<open>xs\<close>, the result on the object \<open>{current, forecast: xs}\<close> is the
  result on the bare list \<open>xs\<close>.
\<close>

theorem wrapper_same_as_list:
  "computeForecastTemperatureStats (ObjectInput \<lparr>current = c, forecast = Some xs\<rparr>) =
   computeForecastTemperatureStats (ArrayInput xs)"
  by (simp add: computeForecastTemperatureStats_def)

section \<open>The loop\<close>

lemma loop_acc:
  "avgAccumulator (loop s xs) =
     foldl (\<lambda>acc d. num_add acc (num_div (num_add (dayMax d) (dayMin d)) (Finite 2)))
       (avgAccumulator s) xs"
  by (induction xs arbitrary: s) (simp_all add: loop_body_def)

lemma finite_or_zero_Finite: "\<exists>q. finite_or_zero v = Finite q"
  by (cases v rule: finite_or_zero.cases) simp_all

lemma dayMax_Finite: "\<exists>q. dayMax d = Finite q"
  by (simp add: dayMax_def finite_or_zero_Finite)

lemma dayMin_Finite: "\<exists>q. dayMin d = Finite q"
  by (simp add: dayMin_def finite_or_zero_Finite)

lemma not_less_trans:
  "a \<noteq> NaN \<Longrightarrow> b \<noteq> NaN \<Longrightarrow> c \<noteq> NaN \<Longrightarrow> \<not> num_less c b \<Longrightarrow> \<not> num_less b a
     \<Longrightarrow> \<not> num_less c a"
  by (cases a; cases b; cases c) auto

lemma loop_max:
  assumes "maxTemp s \<noteq> NaN"
  shows "maxTemp (loop s xs) \<noteq> NaN \<and> \<not> num_less (maxTemp (loop s xs)) (maxTemp s)
     \<and> (\<forall>d\<in>set xs. \<not> num_less (maxTemp (loop s xs)) (dayMax d))
     \<and> (maxTemp (loop s xs) = maxTemp s \<or> maxTemp (loop s xs) \<in> dayMax ` set xs)"
  using assms
proof (induction xs arbitrary: s)
  case Nil
  then show ?case by (cases "maxTemp s") auto
next
  case (Cons d ds)
  let ?s = "loop_body s d"
  obtain q where q: "dayMax d = Finite q" using dayMax_Finite by blast
  have m: "maxTemp ?s = (if num_less (maxTemp s) (dayMax d) then dayMax d else maxTemp s)"
    by (simp add: loop_body_def num_greater_def)
  then have nn: "maxTemp ?s \<noteq> NaN" using Cons.prems q by auto
  have ge1: "\<not> num_less (maxTemp ?s) (maxTemp s)"
    using Cons.prems q by (cases "maxTemp s") (auto simp: m)
  have ge2: "\<not> num_less (maxTemp ?s) (dayMax d)"
    using Cons.prems q by (cases "maxTemp s") (auto simp: m)
  from Cons.IH[OF nn] have ih: "maxTemp (loop ?s ds) \<noteq> NaN"
     "\<not> num_less (maxTemp (loop ?s ds)) (maxTemp ?s)"
     "\<forall>d\<in>set ds. \<not> num_less (maxTemp (loop ?s ds)) (dayMax d)"
     "maxTemp (loop ?s ds) = maxTemp ?s \<or> maxTemp (loop ?s ds) \<in> dayMax ` set ds"
    by auto
  have a: "\<not> num_less (maxTemp (loop ?s ds)) (maxTemp s)"
    using not_less_trans[OF Cons.prems nn ih(1) ih(2) ge1] .
  have b: "\<not> num_less (maxTemp (loop ?s ds)) (dayMax d)"
    using not_less_trans[OF _ nn ih(1) ih(2) ge2] q by simp
  have c: "maxTemp (loop ?s ds) = maxTemp s \<or> maxTemp (loop ?s ds) \<in> dayMax ` set (d # ds)"
    using ih(4) m by (auto split: if_splits)
  show ?case using ih(1) a b c ih(3) by simp
qed

lemma loop_min:
  assumes "minTemp s \<noteq> NaN"
  shows "minTemp (loop s xs) \<noteq> NaN \<and> \<not> num_less (minTemp s) (minTemp (loop s xs))
     \<and> (\<forall>d\<in>set xs. \<not> num_less (dayMin d) (minTemp (loop s xs)))
     \<and> (minTemp (loop s xs) = minTemp s \<or> minTemp (loop s xs) \<in> dayMin ` set xs)"
  using assms
proof (induction xs arbitrary: s)
  case Nil
  then show ?case by (cases "minTemp s") auto
next
  case (Cons d ds)
  let ?s = "loop_body s d"
  obtain q where q: "dayMin d = Finite q" using dayMin_Finite by blast
  have m: "minTemp ?s = (if num_less (dayMin d) (minTemp s) then dayMin d else minTemp s)"
    by (simp add: loop_body_def)
  then have nn: "minTemp ?s \<noteq> NaN" using Cons.prems q by auto
  have le1: "\<not> num_less (minTemp s) (minTemp ?s)"
    using Cons.prems q by (cases "minTemp s") (auto simp: m)
  have le2: "\<not> num_less (dayMin d) (minTemp ?s)"
    using Cons.prems q by (cases "minTemp s") (auto simp: m)
  from Cons.IH[OF nn] have ih: "minTemp (loop ?s ds) \<noteq> NaN"
     "\<not> num_less (minTemp ?s) (minTemp (loop ?s ds))"
     "\<forall>d\<in>set ds. \<not> num_less (dayMin d) (minTemp (loop ?s ds))"
     "minTemp (loop ?s ds) = minTemp ?s \<or> minTemp (loop ?s ds) \<in> dayMin ` set ds"
    by auto
  have a: "\<not> num_less (minTemp s) (minTemp (loop ?s ds))"
    using not_less_trans[OF ih(1) nn Cons.prems le1 ih(2)] .
  have b: "\<not> num_less (dayMin d) (minTemp (loop ?s ds))"
    using not_less_trans[OF ih(1) nn _ le2 ih(2)] q by simp
  have c: "minTemp (loop ?s ds) = minTemp s \<or> minTemp (loop ?s ds) \<in> dayMin ` set (d # ds)"
    using ih(4) m by (auto split: if_splits)
  show ?case using ih(1) a b c ih(3) by simp
qed

lemma loop_max_init:
  assumes "xs \<noteq> []"
  shows "maxTemp (loop loop_init xs) \<in> dayMax ` set xs"
    and "\<forall>d\<in>set xs. \<not> num_less (maxTemp (loop loop_init xs)) (dayMax d)"
proof -
  have nn: "maxTemp loop_init \<noteq> NaN" by (simp add: loop_init_def)
  note inv = loop_max[OF nn, of xs]
  show ub: "\<forall>d\<in>set xs. \<not> num_less (maxTemp (loop loop_init xs)) (dayMax d)"
    using inv by blast
  obtain d where d: "d \<in> set xs" using assms by (cases xs) auto
  obtain q where q: "dayMax d = Finite q" using dayMax_Finite by blast
  have "maxTemp (loop loop_init xs) \<noteq> NegInfinity"
    using ub d q by (auto simp: )
  then show "maxTemp (loop loop_init xs) \<in> dayMax ` set xs"
    using inv by (auto simp: loop_init_def)
qed

lemma loop_min_init:
  assumes "xs \<noteq> []"
  shows "minTemp (loop loop_init xs) \<in> dayMin ` set xs"
    and "\<forall>d\<in>set xs. \<not> num_less (dayMin d) (minTemp (loop loop_init xs))"
proof -
  have nn: "minTemp loop_init \<noteq> NaN" by (simp add: loop_init_def)
  note inv = loop_min[OF nn, of xs]
  show lb: "\<forall>d\<in>set xs. \<not> num_less (dayMin d) (minTemp (loop loop_init xs))"
    using inv by blast
  obtain d where d: "d \<in> set xs" using assms by (cases xs) auto
  obtain q where q: "dayMin d = Finite q" using dayMin_Finite by blast
  have "minTemp (loop loop_init xs) \<noteq> PosInfinity"
    using lb d q by (auto simp: )
  then show "minTemp (loop loop_init xs) \<in> dayMin ` set xs"
    using inv by (auto simp: loop_init_def)
qed

lemma isFinite_dayMax_image: "v \<in> dayMax ` set xs \<Longrightarrow> Number_isFinite (Some v)"
proof -
  assume "v \<in> dayMax ` set xs"
  then obtain d where "v = dayMax d" by blast
  then show ?thesis using dayMax_Finite [of d] by auto
qed

lemma isFinite_dayMin_image: "v \<in> dayMin ` set xs \<Longrightarrow> Number_isFinite (Some v)"
proof -
  assume "v \<in> dayMin ` set xs"
  then obtain d where "v = dayMin d" by blast
  then show ?thesis using dayMin_Finite [of d] by auto
qed

lemma stats_fields:
  assumes "xs \<noteq> []"
  shows "periodDays (computeForecastTemperatureStats (ArrayInput xs)) = length xs"
    and "ForecastTemperatureStats.maxTempC (computeForecastTemperatureStats (ArrayInput xs)) =
           maxTemp (loop loop_init xs)"
    and "ForecastTemperatureStats.minTempC (computeForecastTemperatureStats (ArrayInput xs)) =
           minTemp (loop loop_init xs)"
    and "avgTempC (computeForecastTemperatureStats (ArrayInput xs)) =
           (if Number_isFinite (Some (spec_average xs)) then spec_average xs else Finite 0)"
proof -
  have mx: "Number_isFinite (Some (maxTemp (loop loop_init xs)))"
    using loop_max_init(1)[OF assms] by (rule isFinite_dayMax_image)
  have mn: "Number_isFinite (Some (minTemp (loop loop_init xs)))"
    using loop_min_init(1)[OF assms] by (rule isFinite_dayMin_image)
  have av: "num_div (avgAccumulator (loop loop_init xs)) (number_of_length xs) = spec_average xs"
    by (simp add: spec_average_def loop_acc loop_init_def)
  show "periodDays (computeForecastTemperatureStats (ArrayInput xs)) = length xs"
    using assms by (simp add: computeForecastTemperatureStats_def Let_def)
  show "ForecastTemperatureStats.maxTempC (computeForecastTemperatureStats (ArrayInput xs)) =
           maxTemp (loop loop_init xs)"
    using assms mx by (simp add: computeForecastTemperatureStats_def Let_def)
  show "ForecastTemperatureStats.minTempC (computeForecastTemperatureStats (ArrayInput xs)) =
           minTemp (loop loop_init xs)"
    using assms mn by (simp add: computeForecastTemperatureStats_def Let_def)
  show "avgTempC (computeForecastTemperatureStats (ArrayInput xs)) =
           (if Number_isFinite (Some (spec_average xs)) then spec_average xs else Finite 0)"
    using assms by (simp add: computeForecastTemperatureStats_def Let_def av)
qed

lemma MAX_VALUE_double: "round_double MAX_VALUE = Finite MAX_VALUE"
proof -
  have "\<not> (2::rat) ^ 1024 \<le> of_int (2 ^ 53 - 1) * 2 ^ 971" by simp
  then show ?thesis
    unfolding MAX_VALUE_def using round_double_int_pow2 [of "2 ^ 53 - 1" 971] by simp
qed

lemma MAX_VALUE_overflow: "round_double (2 * MAX_VALUE) = PosInfinity"
proof -
  have eq: "2 * MAX_VALUE = of_int (2 ^ 53 - 1) * 2 ^ 972"
    unfolding MAX_VALUE_def by simp
  have "(2::rat) ^ 1024 \<le> of_int (2 ^ 53 - 1) * 2 ^ 972" by simp
  then show ?thesis
    unfolding eq using round_double_int_pow2 [of "2 ^ 53 - 1" 972] by simp
qed

section \<open>Maximum, minimum and average\<close>

text \<open>
  C3 (amended). On a non-empty forecast, \<open>maxTempC\<close> is the greatest \<open>dayMax\<close> of the days
  (it is the \<open>dayMax\<close> of some day and no day's \<open>dayMax\<close> is greater), \<open>minTempC\<close> is the
  least \<open>dayMin\<close>, and \<open>avgTempC\<close> is the sum of the \<open>(dayMax + dayMin) / 2\<close>, added from left
  to right and divided once by the number of days, whenever that quotient is a finite
  number; when it is not, \<open>avgTempC\<close> is \<open>0\<close>.
\<close>

theorem stats_max_min_average:
  assumes "xs \<noteq> []"
  shows "ForecastTemperatureStats.maxTempC (computeForecastTemperatureStats (ArrayInput xs))
           \<in> dayMax ` set xs
       \<and> (\<forall>d\<in>set xs. \<not> num_greater (dayMax d)
             (ForecastTemperatureStats.maxTempC (computeForecastTemperatureStats (ArrayInput xs))))
       \<and> ForecastTemperatureStats.minTempC (computeForecastTemperatureStats (ArrayInput xs))
           \<in> dayMin ` set xs
       \<and> (\<forall>d\<in>set xs. \<not> num_less (dayMin d)
             (ForecastTemperatureStats.minTempC (computeForecastTemperatureStats (ArrayInput xs))))
       \<and> avgTempC (computeForecastTemperatureStats (ArrayInput xs)) =
           (if Number_isFinite (Some (spec_average xs)) then spec_average xs else Finite 0)"
  using loop_max_init[OF assms] loop_min_init[OF assms]
  by (simp add: stats_fields[OF assms] num_greater_def)

text \<open>
  The one-day input with \<open>maxTempC = 20\<close> and \<open>minTempC = 10\<close>: one day, minimum \<open>10\<close>,
  maximum \<open>20\<close>, average \<open>15\<close>, and both bounds are the date of that day.
\<close>

theorem stats_max_min_average_witness:
  "computeForecastTemperatureStats
     (ArrayInput [example_day ''2025-10-24T07:00:00Z'' (Some (Finite 20)) (Some (Finite 10))]) =
     \<lparr>periodDays = 1,
      periodStartISO = Some ''2025-10-24T07:00:00Z'', periodEndISO = Some ''2025-10-24T07:00:00Z'',
      minTempC = Finite 10, maxTempC = Finite 20, avgTempC = Finite 15\<rparr>"
  using stats_max_min_average
    [of "[example_day ''2025-10-24T07:00:00Z'' (Some (Finite 20)) (Some (Finite 10))]"]
  by (simp add: computeForecastTemperatureStats_def Let_def loop_init_def loop_body_def
      dayMax_def dayMin_def example_day_def num_greater_def number_of_length_def
      spec_average_def round_double_numeral round_double_zero)

text \<open>
  C3 as stated, without the final guard, fails where the sum overflows. For one day with both
  temperatures at \<^verbatim>\<open>Number.MAX_VALUE\<close>, \<open>dayMax + dayMin\<close> is \<^verbatim>\<open>Infinity\<close>, so the sum
  divided by the number of days is \<^verbatim>\<open>Infinity\<close>, and the function returns \<open>avgTempC = 0\<close>.
\<close>

theorem average_overflow_counterexample:
  "is_double MAX_VALUE
   \<and> spec_average [example_day ''2025-10-24T07:00:00Z'' (Some (Finite MAX_VALUE)) (Some (Finite MAX_VALUE))]
       = PosInfinity
   \<and> avgTempC (computeForecastTemperatureStats (ArrayInput
        [example_day ''2025-10-24T07:00:00Z'' (Some (Finite MAX_VALUE)) (Some (Finite MAX_VALUE))]))
       = Finite 0"
  by (simp add: is_double_def MAX_VALUE_double MAX_VALUE_overflow spec_average_def
      computeForecastTemperatureStats_def Let_def loop_init_def loop_body_def
      dayMax_def dayMin_def example_day_def number_of_length_def)

section \<open>Days without a finite temperature\<close>

lemma finite_or_zero_idem:
  "finite_or_zero (if Number_isFinite v then v else Some (Finite 0)) = finite_or_zero v"
  by (cases v rule: finite_or_zero.cases) simp_all

lemma dayMax_zero_fill: "dayMax (zero_fill d) = dayMax d"
  by (simp add: dayMax_def zero_fill_def finite_or_zero_idem)

lemma dayMin_zero_fill: "dayMin (zero_fill d) = dayMin d"
  by (simp add: dayMin_def zero_fill_def finite_or_zero_idem)

lemma loop_zero_fill: "loop s (map zero_fill xs) = loop s xs"
  by (induction xs arbitrary: s) (simp_all add: loop_body_def dayMax_zero_fill dayMin_zero_fill)

lemma index_map: "index (map f xs) i = map_option f (index xs i)"
proof (induction xs arbitrary: i)
  case Nil
  then show ?case by simp
next
  case (Cons x xs)
  then show ?case by (cases i) simp_all
qed

lemma chain_dateISO_zero_fill:
  "chain (index (map zero_fill xs) i) dateISO = chain (index xs i) dateISO"
  by (cases "index xs i") (simp_all add: index_map zero_fill_def)

lemma round_double_5_2: "round_double (5 / 2) = Finite (5 / 2)"
  using round_double_dyadic [of 5 1] by simp

lemma round_double_35_2: "round_double (35 / 2) = Finite (35 / 2)"
  using round_double_dyadic [of 35 1] by simp

lemma round_double_35_4: "round_double (35 / 4) = Finite (35 / 4)"
  using round_double_dyadic [of 35 2] by simp

lemmas eval_stats =
  computeForecastTemperatureStats_def Let_def loop_init_def loop_body_def dayMax_def dayMin_def
  example_day_def num_greater_def number_of_length_def

lemma nonfinite_example:
  assumes "\<not> Number_isFinite v"
  shows "computeForecastTemperatureStats (ArrayInput
           [example_day a (Some (Finite 20)) (Some (Finite 10)), example_day b v (Some (Finite 5))]) =
         \<lparr>periodDays = 2, periodStartISO = Some a, periodEndISO = Some b,
          minTempC = Finite 5, maxTempC = Finite 20, avgTempC = Finite (35 / 4)\<rparr>"
proof -
  have "finite_or_zero v = Finite 0"
    using assms by (cases v rule: finite_or_zero.cases) simp_all
  then show ?thesis
    by (simp add: eval_stats round_double_numeral round_double_zero
        round_double_5_2 round_double_35_2 round_double_35_4)
qed

text \<open>
  C2 (amended). A day whose \<open>maxTempC\<close> (or \<open>minTempC\<close>) is not a finite number (NaN, an
  infinity, or absent) is not left out: every day is counted in \<open>periodDays\<close>, and the result
  is the result on the input in which each such value is replaced by \<open>0\<close>, so the day enters
  the maximum, the minimum and the sum of the average with \<open>0\<close>. For the two days
  \<open>{max: 20, min: 10}\<close> and \<open>{max: v, min: 5}\<close> with \<open>v\<close> not finite, the result is
  \<open>maxTempC = 20\<close>, \<open>minTempC = 5\<close>, \<open>avgTempC = 8.75\<close> over two days.
\<close>

theorem nonfinite_days_count_as_zero:
  "periodDays (computeForecastTemperatureStats (ArrayInput xs)) = length xs
   \<and> computeForecastTemperatureStats (ArrayInput (map zero_fill xs)) =
       computeForecastTemperatureStats (ArrayInput xs)
   \<and> (\<not> Number_isFinite v \<longrightarrow>
        computeForecastTemperatureStats (ArrayInput
           [example_day a (Some (Finite 20)) (Some (Finite 10)), example_day b v (Some (Finite 5))]) =
         \<lparr>periodDays = 2, periodStartISO = Some a, periodEndISO = Some b,
          minTempC = Finite 5, maxTempC = Finite 20, avgTempC = Finite (35 / 4)\<rparr>)"
proof (intro conjI impI)
  show "periodDays (computeForecastTemperatureStats (ArrayInput xs)) = length xs"
    by (simp add: computeForecastTemperatureStats_def Let_def empty_stats_def)
  show "computeForecastTemperatureStats (ArrayInput (map zero_fill xs)) =
       computeForecastTemperatureStats (ArrayInput xs)"
    by (simp add: computeForecastTemperatureStats_def Let_def loop_zero_fill
        chain_dateISO_zero_fill number_of_length_def)
qed (rule nonfinite_example)

text \<open>The example with \<open>v\<close> NaN, and with \<open>v\<close> absent.\<close>

theorem nonfinite_days_count_as_zero_witness:
  "computeForecastTemperatureStats (ArrayInput
     [example_day ''2025-10-24T07:00:00Z'' (Some (Finite 20)) (Some (Finite 10)),
      example_day ''2025-10-25T07:00:00Z'' (Some NaN) (Some (Finite 5))]) =
   \<lparr>periodDays = 2,
    periodStartISO = Some ''2025-10-24T07:00:00Z'', periodEndISO = Some ''2025-10-25T07:00:00Z'',
    minTempC = Finite 5, maxTempC = Finite 20, avgTempC = Finite (35 / 4)\<rparr>
   \<and> computeForecastTemperatureStats (ArrayInput
     [example_day ''2025-10-24T07:00:00Z'' (Some (Finite 20)) (Some (Finite 10)),
      example_day ''2025-10-25T07:00:00Z'' None (Some (Finite 5))]) =
   \<lparr>periodDays = 2,
    periodStartISO = Some ''2025-10-24T07:00:00Z'', periodEndISO = Some ''2025-10-25T07:00:00Z'',
    minTempC = Finite 5, maxTempC = Finite 20, avgTempC = Finite (35 / 4)\<rparr>"
  using nonfinite_days_count_as_zero
      [of "[]" "Some NaN" "''2025-10-24T07:00:00Z''" "''2025-10-25T07:00:00Z''"]
    nonfinite_days_count_as_zero
      [of "[]" None "''2025-10-24T07:00:00Z''" "''2025-10-25T07:00:00Z''"]
  by simp

text \<open>
  C2 as stated gives \<open>minTempC = 0\<close> for the example. The value replaced by \<open>0\<close> is the second
  day's maximum; its minimum is \<open>5\<close>, the least of the minima \<open>10\<close> and \<open>5\<close>.
\<close>

theorem nonfinite_example_counterexample:
  "ForecastTemperatureStats.minTempC (computeForecastTemperatureStats (ArrayInput
     [example_day ''2025-10-24T07:00:00Z'' (Some (Finite 20)) (Some (Finite 10)),
      example_day ''2025-10-25T07:00:00Z'' (Some NaN) (Some (Finite 5))])) = Finite 5
   \<and> ForecastTemperatureStats.minTempC (computeForecastTemperatureStats (ArrayInput
     [example_day ''2025-10-24T07:00:00Z'' (Some (Finite 20)) (Some (Finite 10)),
      example_day ''2025-10-25T07:00:00Z'' (Some NaN) (Some (Finite 5))])) \<noteq> Finite 0"
  by (simp add: nonfinite_example)

section \<open>The average between the minimum and the maximum\<close>












text \<open>The binary64 arithmetic of three days at \<^verbatim>\<open>0.1\<close>.\<close>

lemma one_tenth_double: "round_double one_tenth = Finite one_tenth"
  unfolding one_tenth_def round_double_def Let_def floor_log2_def
  apply (simp add: bit_length.simps floor_rat_numeral_div ceiling_rat_numeral_div)
  apply (simp add: pow2_def round_half_even_def Let_def floor_rat_numeral_div)
  done

lemma two_tenths_double: "round_double (2 * one_tenth) = Finite (2 * one_tenth)"
  unfolding one_tenth_def round_double_def Let_def floor_log2_def
  apply (simp add: bit_length.simps floor_rat_numeral_div ceiling_rat_numeral_div)
  apply (simp add: pow2_def round_half_even_def Let_def floor_rat_numeral_div)
  done

text \<open>\<^verbatim>\<open>0.1 + 0.1 + 0.1\<close> is \<^verbatim>\<open>0.30000000000000004\<close>: the exact sum is a tie, rounded to even.\<close>

lemma three_tenths_rounded:
  "round_double (3 * one_tenth) = Finite (1351079888211149 / 2 ^ 52)"
  unfolding one_tenth_def round_double_def Let_def floor_log2_def
  apply (simp add: bit_length.simps floor_rat_numeral_div ceiling_rat_numeral_div)
  apply (simp add: pow2_def round_half_even_def Let_def floor_rat_numeral_div)
  done



text \<open>For these three days the accumulated sum is above three times the maximum.\<close>

lemma tenth_sum_out_of_range:
  "\<not> sum_in_range
     [example_day a (Some (Finite one_tenth)) (Some (Finite one_tenth)),
      example_day b (Some (Finite one_tenth)) (Some (Finite one_tenth)),
      example_day c (Some (Finite one_tenth)) (Some (Finite one_tenth))]"
  by (simp add: sum_in_range_def eval_stats round_double_zero one_tenth_double two_tenths_double
      three_tenths_rounded [simplified])
    (simp add: one_tenth_def)


section \<open>The period bounds are never null\<close>

lemma dateISO_toDay: "dateISO (toDay raw) = Some (nullish (chain (chain raw interval) startTime) [])"
  by (simp add: toDay_def)

lemma getDailyForecast_dates:
  assumes "getDailyForecast api_key res = Inr ys"
  shows "\<forall>d\<in>set ys. dateISO d \<noteq> None"
proof -
  from assms have "ys = map toDay (nullish (chain (json res) forecastDays) [])"
    by (simp add: getDailyForecast_def split: if_splits)
  then show ?thesis by (auto simp: dateISO_toDay)
qed

text \<open>
  C10. On a non-empty forecast whose days have their \<open>dateISO\<close>, as the declared type
  \<^verbatim>\<open>string\<close> requires, \<open>periodStartISO\<close> and \<open>periodEndISO\<close> are not null: the fallback
  \<^verbatim>\<open>?? null\<close> is not taken. Every day that \<open>getDailyForecast\<close> returns has its \<open>dateISO\<close>,
  and a day for which the provider omits \<^verbatim>\<open>interval.startTime\<close> has the empty string there,
  not null.
\<close>

theorem period_bounds_never_null:
  "(xs \<noteq> [] \<longrightarrow> (\<forall>d\<in>set xs. dateISO d \<noteq> None) \<longrightarrow>
      periodStartISO (computeForecastTemperatureStats (ArrayInput xs)) \<noteq> None
      \<and> periodEndISO (computeForecastTemperatureStats (ArrayInput xs)) \<noteq> None)
   \<and> (getDailyForecast api_key res = Inr ys \<longrightarrow> (\<forall>d\<in>set ys. dateISO d \<noteq> None))
   \<and> (chain (chain raw interval) startTime = None \<longrightarrow> dateISO (toDay raw) = Some [])"
proof (intro conjI impI)
  assume ne: "xs \<noteq> []" and all: "\<forall>d\<in>set xs. dateISO d \<noteq> None"
  have "hd xs \<in> set xs" "last xs \<in> set xs" using ne by simp_all
  then have "dateISO (hd xs) \<noteq> None" "dateISO (last xs) \<noteq> None" using all by blast+
  then show "periodStartISO (computeForecastTemperatureStats (ArrayInput xs)) \<noteq> None"
    and "periodEndISO (computeForecastTemperatureStats (ArrayInput xs)) \<noteq> None"
    using ne by (simp_all add: computeForecastTemperatureStats_def Let_def index_first index_last)
next
  assume "getDailyForecast api_key res = Inr ys"
  then show "\<forall>d\<in>set ys. dateISO d \<noteq> None" by (rule getDailyForecast_dates)
next
  assume "chain (chain raw interval) startTime = None"
  then show "dateISO (toDay raw) = Some []" by (simp add: dateISO_toDay)
qed

text \<open>
  A forecast response of two days, the first without \<open>interval\<close>, the second a null entry:
  both bounds are the empty string.
\<close>

theorem period_bounds_never_null_witness:
  "getDailyForecast (Some ''key'')
     \<lparr>ok = True, httpStatus = 200, statusText = ''OK'',
      json = Some \<lparr>RawForecast.timeZone = None,
        forecastDays = Some
          [Some \<lparr>interval = None, RawDay.displayDate = None,
             RawDay.maxTemperature = Some \<lparr>RawDegrees.degrees = Some (Finite 20)\<rparr>,
             RawDay.minTemperature = Some \<lparr>RawDegrees.degrees = Some (Finite 10)\<rparr>,
             feelsLikeMaxTemperature = None, feelsLikeMinTemperature = None,
             sunEvents = None, daytimeForecast = None, nighttimeForecast = None\<rparr>,
           None]\<rparr>\<rparr>
     = Inr [example_day [] (Some (Finite 20)) (Some (Finite 10)),
            example_day [] (Some (Finite 0)) (Some (Finite 0))]
   \<and> periodStartISO (computeForecastTemperatureStats (ArrayInput
        [example_day [] (Some (Finite 20)) (Some (Finite 10)),
         example_day [] (Some (Finite 0)) (Some (Finite 0))])) = Some []
   \<and> periodEndISO (computeForecastTemperatureStats (ArrayInput
        [example_day [] (Some (Finite 20)) (Some (Finite 10)),
         example_day [] (Some (Finite 0)) (Some (Finite 0))])) = Some []
   \<and> dateISO (toDay None) = Some []"
proof -
  let ?res = "\<lparr>ok = True, httpStatus = 200, statusText = ''OK'',
      json = Some \<lparr>RawForecast.timeZone = None,
        forecastDays = Some
          [Some \<lparr>interval = None, RawDay.displayDate = None,
             RawDay.maxTemperature = Some \<lparr>RawDegrees.degrees = Some (Finite 20)\<rparr>,
             RawDay.minTemperature = Some \<lparr>RawDegrees.degrees = Some (Finite 10)\<rparr>,
             feelsLikeMaxTemperature = None, feelsLikeMinTemperature = None,
             sunEvents = None, daytimeForecast = None, nighttimeForecast = None\<rparr>,
           None]\<rparr>\<rparr>"
  let ?ys = "[example_day [] (Some (Finite 20)) (Some (Finite 10)),
            example_day [] (Some (Finite 0)) (Some (Finite 0))]"
  have run: "getDailyForecast (Some ''key'') ?res = Inr ?ys"
    by (simp add: getDailyForecast_def toDay_def example_day_def)
  have ne: "?ys \<noteq> []" by simp
  note t = period_bounds_never_null [of ?ys "Some ''key''" ?res ?ys None]
  from t run have dates: "\<forall>d\<in>set ?ys. dateISO d \<noteq> None" by blast
  from t ne dates have
    "periodStartISO (computeForecastTemperatureStats (ArrayInput ?ys)) \<noteq> None
     \<and> periodEndISO (computeForecastTemperatureStats (ArrayInput ?ys)) \<noteq> None"
    by blast
  moreover from t have "dateISO (toDay None) = Some []" by simp
  ultimately show ?thesis
    using run by (simp add: computeForecastTemperatureStats_def Let_def example_day_def)
qed

section \<open>Geocoding\<close>

lemma mapHits_Inr:
  "mapHits rs = Inr hits \<longleftrightarrow> list_all2 (\<lambda>r h. toHit r = Inr h) rs hits"
proof (induction rs arbitrary: hits)
  case Nil
  then show ?case by auto
next
  case (Cons r rs)
  show ?case
  proof (cases "toHit r")
    case (Inl e)
    then show ?thesis by (auto simp: list_all2_Cons1)
  next
    case (Inr h)
    then show ?thesis
      using Cons.IH by (cases "mapHits rs") (auto simp: list_all2_Cons1)
  qed
qed

lemma geocode_failure:
  assumes "truthy_string api_key" and "ok res" and "json res = Some data"
    and "status data \<noteq> Some ''OK''"
  shows "geocode api_key res =
           Inl (GeocodeFailed (or_string (error_message data) (or_string (status data) ''Geocoding failed'')))"
  using assms by (simp add: geocode_def)

text \<open>
  C9 (amended). With the API key configured and a successful HTTP response carrying a JSON
  object: when \<open>status\<close> is not \<open>OK\<close>, \<open>geocode\<close> fails with an error whose message is the
  provider's \<open>error_message\<close> if that is present and not empty, else the \<open>status\<close> if that is
  present and not empty, else the text \<open>Geocoding failed\<close>. When \<open>status\<close> is \<open>OK\<close>, \<open>geocode\<close>
  returns a list of hits exactly when \<open>results\<close> is present and each entry has its
  \<open>geometry.location\<close>, and then the hits are the images of the entries, one for one and
  in the provider's order: nothing is filtered, merged or reordered.
\<close>

theorem geocode_failure_and_success:
  assumes "truthy_string api_key" and "ok res" and "json res = Some data"
  shows "(status data \<noteq> Some ''OK'' \<longrightarrow> error_message data = Some m \<longrightarrow> m \<noteq> [] \<longrightarrow>
            geocode api_key res = Inl (GeocodeFailed m))
       \<and> (status data = Some c \<longrightarrow> c \<noteq> ''OK'' \<longrightarrow> c \<noteq> [] \<longrightarrow> \<not> truthy_string (error_message data) \<longrightarrow>
            geocode api_key res = Inl (GeocodeFailed c))
       \<and> (\<not> truthy_string (status data) \<longrightarrow> \<not> truthy_string (error_message data) \<longrightarrow>
            geocode api_key res = Inl (GeocodeFailed ''Geocoding failed''))
       \<and> (status data = Some ''OK'' \<longrightarrow>
            (geocode api_key res = Inr hits \<longleftrightarrow>
               (\<exists>rs. results data = Some rs \<and> list_all2 (\<lambda>r h. toHit r = Inr h) rs hits)))"
proof (intro conjI impI)
  assume "status data \<noteq> Some ''OK''" and "error_message data = Some m" and "m \<noteq> []"
  then show "geocode api_key res = Inl (GeocodeFailed m)"
    using geocode_failure [OF assms] by simp
next
  assume "status data = Some c" and "c \<noteq> ''OK''" and "c \<noteq> []"
    and "\<not> truthy_string (error_message data)"
  then show "geocode api_key res = Inl (GeocodeFailed c)"
    using geocode_failure [OF assms] by (cases "error_message data") simp_all
next
  assume s: "\<not> truthy_string (status data)" and "\<not> truthy_string (error_message data)"
  moreover from s have "status data \<noteq> Some ''OK''" by auto
  ultimately show "geocode api_key res = Inl (GeocodeFailed ''Geocoding failed'')"
    using geocode_failure [OF assms]
    by (cases "error_message data"; cases "status data") simp_all
next
  assume "status data = Some ''OK''"
  then show "geocode api_key res = Inr hits \<longleftrightarrow>
               (\<exists>rs. results data = Some rs \<and> list_all2 (\<lambda>r h. toHit r = Inr h) rs hits)"
    using assms by (cases "results data") (simp_all add: geocode_def mapHits_Inr)
qed

text \<open>
  The two failures of the specification: \<open>ZERO_RESULTS\<close> without a message, and
  \<open>OVER_QUERY_LIMIT\<close> with the message \<open>quota\<close>; and a success with two entries, kept in order.
\<close>

theorem geocode_failure_and_success_witness:
  "geocode (Some ''key'')
     \<lparr>ok = True, httpStatus = 200, statusText = ''OK'',
      json = Some \<lparr>status = Some ''ZERO_RESULTS'', error_message = None, results = Some []\<rparr>\<rparr>
     = Inl (GeocodeFailed ''ZERO_RESULTS'')
   \<and> geocode (Some ''key'')
     \<lparr>ok = True, httpStatus = 200, statusText = ''OK'',
      json = Some \<lparr>status = Some ''OVER_QUERY_LIMIT'', error_message = Some ''quota'',
        results = None\<rparr>\<rparr>
     = Inl (GeocodeFailed ''quota'')
   \<and> geocode (Some ''key'')
     \<lparr>ok = True, httpStatus = 200, statusText = ''OK'',
      json = Some \<lparr>status = Some [], error_message = Some [], results = None\<rparr>\<rparr>
     = Inl (GeocodeFailed ''Geocoding failed'')
   \<and> geocode (Some ''key'')
     \<lparr>ok = True, httpStatus = 200, statusText = ''OK'',
      json = Some \<lparr>status = Some ''OK'', error_message = None,
        results = Some
          [Some \<lparr>RawResult.formatted_address = Some ''B Street'', RawResult.place_id = Some ''p2'',
             geometry = Some \<lparr>RawGeometry.location =
               Some \<lparr>RawLocation.lat = Some (Finite 2), RawLocation.lng = Some (Finite 3)\<rparr>\<rparr>\<rparr>,
           Some \<lparr>RawResult.formatted_address = Some ''A Street'', RawResult.place_id = Some ''p1'',
             geometry = Some \<lparr>RawGeometry.location =
               Some \<lparr>RawLocation.lat = Some (Finite 1), RawLocation.lng = Some (Finite 1)\<rparr>\<rparr>\<rparr>]\<rparr>\<rparr>
     = Inr [\<lparr>formatted_address = Some ''B Street'', place_id = Some ''p2'',
             location = \<lparr>lat = Some (Finite 2), lng = Some (Finite 3)\<rparr>\<rparr>,
            \<lparr>formatted_address = Some ''A Street'', place_id = Some ''p1'',
             location = \<lparr>lat = Some (Finite 1), lng = Some (Finite 1)\<rparr>\<rparr>]"
proof -
  let ?r1 = "\<lparr>ok = True, httpStatus = 200, statusText = ''OK'',
      json = Some \<lparr>status = Some ''ZERO_RESULTS'', error_message = None, results = Some []\<rparr>\<rparr>"
  let ?r2 = "\<lparr>ok = True, httpStatus = 200, statusText = ''OK'',
      json = Some \<lparr>status = Some ''OVER_QUERY_LIMIT'', error_message = Some ''quota'',
        results = None\<rparr>\<rparr>"
  let ?r3 = "\<lparr>ok = True, httpStatus = 200, statusText = ''OK'',
      json = Some \<lparr>status = Some [], error_message = Some [], results = None\<rparr>\<rparr>"
  let ?rs = "[Some \<lparr>RawResult.formatted_address = Some ''B Street'', RawResult.place_id = Some ''p2'',
             geometry = Some \<lparr>RawGeometry.location =
               Some \<lparr>RawLocation.lat = Some (Finite 2), RawLocation.lng = Some (Finite 3)\<rparr>\<rparr>\<rparr>,
           Some \<lparr>RawResult.formatted_address = Some ''A Street'', RawResult.place_id = Some ''p1'',
             geometry = Some \<lparr>RawGeometry.location =
               Some \<lparr>RawLocation.lat = Some (Finite 1), RawLocation.lng = Some (Finite 1)\<rparr>\<rparr>\<rparr>]"
  let ?r4 = "\<lparr>ok = True, httpStatus = 200, statusText = ''OK'',
      json = Some \<lparr>status = Some ''OK'', error_message = None, results = Some ?rs\<rparr>\<rparr>"
  let ?hits = "[\<lparr>formatted_address = Some ''B Street'', place_id = Some ''p2'',
             location = \<lparr>lat = Some (Finite 2), lng = Some (Finite 3)\<rparr>\<rparr>,
            \<lparr>formatted_address = Some ''A Street'', place_id = Some ''p1'',
             location = \<lparr>lat = Some (Finite 1), lng = Some (Finite 1)\<rparr>\<rparr>]"
  have k: "truthy_string (Some ''key'')" by simp
  have a: "geocode (Some ''key'') ?r1 = Inl (GeocodeFailed ''ZERO_RESULTS'')"
    using geocode_failure_and_success [OF k, of ?r1 _ _ "''ZERO_RESULTS''"] by simp
  have b: "geocode (Some ''key'') ?r2 = Inl (GeocodeFailed ''quota'')"
    using geocode_failure_and_success [OF k, of ?r2 _ "''quota''"] by simp
  have c: "geocode (Some ''key'') ?r3 = Inl (GeocodeFailed ''Geocoding failed'')"
    using geocode_failure_and_success [OF k, of ?r3] by simp
  have d: "geocode (Some ''key'') ?r4 = Inr ?hits"
    using geocode_failure_and_success [OF k, of ?r4 _ _ _ ?hits] by simp
  show ?thesis using a b c d by (simp only:)
qed

text \<open>
  C9 as stated gives the status code as the message whenever \<open>error_message\<close> is absent. A
  response without \<open>status\<close> and without \<open>error_message\<close> is not \<open>OK\<close>, and has no status
  code to carry: the message is the fixed text.
\<close>

theorem geocode_message_counterexample:
  "geocode (Some ''key'')
     \<lparr>ok = True, httpStatus = 200, statusText = ''OK'',
      json = Some \<lparr>status = None, error_message = None, results = None\<rparr>\<rparr>
     = Inl (GeocodeFailed ''Geocoding failed'')"
  by (simp add: geocode_def)

section \<open>Current conditions\<close>

lemma InvalidResponse_not_MissingConfiguration: "InvalidResponse \<noteq> MissingConfiguration"
  by (simp add: InvalidResponse_def MissingConfiguration_def)

lemma InvalidResponse_not_NetworkError: "InvalidResponse \<noteq> NetworkError code txt"
  by (simp add: InvalidResponse_def NetworkError_def)

lemmas error_kinds_distinct =
  InvalidResponse_not_MissingConfiguration InvalidResponse_not_NetworkError
  InvalidResponse_not_MissingConfiguration [THEN not_sym]
  InvalidResponse_not_NetworkError [THEN not_sym]

lemma getWeatherSummary_invalid:
  "getWeatherSummary api_key res = Inl InvalidResponse \<longleftrightarrow>
     truthy_string api_key \<and> ok res \<and> chain (json res) RawCurrent.weatherCondition = None"
  by (cases "json res")
    (auto simp: getWeatherSummary_def Let_def error_kinds_distinct)

lemma getWeatherSummary_returns:
  "(\<exists>w. getWeatherSummary api_key res = Inr w) \<longleftrightarrow>
     truthy_string api_key \<and> ok res \<and> chain (json res) RawCurrent.weatherCondition \<noteq> None"
  by (cases "json res") (auto simp: getWeatherSummary_def Let_def)

lemma getWeatherSummary_network:
  "truthy_string api_key \<Longrightarrow> \<not> ok res \<Longrightarrow>
   getWeatherSummary api_key res = Inl (NetworkError (httpStatus res) (statusText res))"
  by (simp add: getWeatherSummary_def)

text \<open>
  C7. \<open>getWeatherSummary\<close> fails with the error \<open>Invalid response from Weather API\<close> exactly
  when the key is configured, the HTTP response is successful and the payload has no
  \<open>weatherCondition\<close> object; it returns a summary exactly when that object is there; and this
  error is not the one of an unsuccessful HTTP response. The summary it returns is not always
  fully populated: for a payload that holds nothing but an empty \<open>weatherCondition\<close> object,
  every field has its default except \<open>currentTime\<close>, which is copied with no default and is
  undefined.
\<close>

theorem weather_summary_invalid_response:
  "(getWeatherSummary api_key res = Inl InvalidResponse) =
     (truthy_string api_key \<and> ok res \<and> chain (json res) RawCurrent.weatherCondition = None)
   \<and> (\<exists>w. getWeatherSummary api_key res = Inr w) =
     (truthy_string api_key \<and> ok res \<and> chain (json res) RawCurrent.weatherCondition \<noteq> None)
   \<and> InvalidResponse \<noteq> NetworkError code txt
   \<and> getWeatherSummary (Some ''key'')
       \<lparr>ok = True, httpStatus = 200, statusText = ''OK'',
        json = Some
          \<lparr>RawCurrent.currentTime = None, RawCurrent.timeZone = None, RawCurrent.isDaytime = None,
           RawCurrent.weatherCondition =
             Some \<lparr>RawCondition.type = None, RawCondition.description = None, iconBaseUri = None\<rparr>,
           temperature = None, feelsLikeTemperature = None, RawCurrent.uvIndex = None,
           RawCurrent.wind = None, RawCurrent.thunderstormProbability = None,
           currentConditionsHistory = None, visibility = None\<rparr>\<rparr>
     = Inr
       \<lparr>WeatherSummary.currentTime = None, timeZone = ''Unknown'', isDaytime = False,
        weatherCondition =
          \<lparr>WeatherCondition.type = ''UNKNOWN'', WeatherCondition.description = ''Unknown'',
           WeatherCondition.iconUrl = []\<rparr>,
        temperatureC = Finite 0, feelsLikeC = Finite 0, uvIndex = Finite 0,
        wind = \<lparr>directionDegrees = Finite 0, directionCardinal = ''UNKNOWN'',
                speedKph = Finite 0, gustKph = Finite 0\<rparr>,
        thunderstormProbability = Finite 0, maxTempC = Finite 0, minTempC = Finite 0,
        visibilityKm = Finite 0\<rparr>"
  by (simp add: getWeatherSummary_invalid getWeatherSummary_returns
      InvalidResponse_not_NetworkError)
    (simp add: getWeatherSummary_def Let_def)

lemma getWeatherSummary_Inr:
  assumes "getWeatherSummary api_key res = Inr w" and "json res = Some data"
  shows "w =
       \<lparr>WeatherSummary.currentTime = RawCurrent.currentTime data,
        timeZone = nullish (chain (RawCurrent.timeZone data) zoneId) ''Unknown'',
        isDaytime = truthy_bool (RawCurrent.isDaytime data),
        weatherCondition =
          \<lparr>WeatherCondition.type =
             nullish (chain (RawCurrent.weatherCondition data) RawCondition.type) ''UNKNOWN'',
           WeatherCondition.description =
             nullish (chain (chain (RawCurrent.weatherCondition data) RawCondition.description)
               descriptionText) ''Unknown'',
           WeatherCondition.iconUrl = icon_url (chain (RawCurrent.weatherCondition data) iconBaseUri)\<rparr>,
        temperatureC = nullish (chain (temperature data) RawDegrees.degrees) (Finite 0),
        feelsLikeC = nullish (chain (feelsLikeTemperature data) RawDegrees.degrees) (Finite 0),
        uvIndex = nullish (RawCurrent.uvIndex data) (Finite 0),
        wind =
          \<lparr>directionDegrees =
             nullish (chain (chain (RawCurrent.wind data) direction) RawDirection.degrees) (Finite 0),
           directionCardinal = nullish (chain (chain (RawCurrent.wind data) direction) cardinal) ''UNKNOWN'',
           speedKph = nullish (chain (chain (RawCurrent.wind data) speed) quantity) (Finite 0),
           gustKph = nullish (chain (chain (RawCurrent.wind data) gust) quantity) (Finite 0)\<rparr>,
        thunderstormProbability = nullish (RawCurrent.thunderstormProbability data) (Finite 0),
        maxTempC =
          nullish (chain (chain (currentConditionsHistory data) RawHistory.maxTemperature)
            RawDegrees.degrees) (Finite 0),
        minTempC =
          nullish (chain (chain (currentConditionsHistory data) RawHistory.minTemperature)
            RawDegrees.degrees) (Finite 0),
        visibilityKm = nullish (chain (visibility data) distance) (Finite 0)\<rparr>"
  using assms by (simp add: getWeatherSummary_def Let_def split: if_splits)

text \<open>
  C8 (amended). In the summary that \<open>getWeatherSummary\<close> returns, every field other than
  \<open>currentTime\<close> has a value: a numeric field whose path is missing from the payload is \<open>0\<close>,
  a string field is its sentinel (\<open>Unknown\<close> or \<open>UNKNOWN\<close>), \<open>isDaytime\<close> is true exactly when
  the payload's flag is \<^verbatim>\<open>true\<close>, and the icon URL is the base URI followed by \<open>.png\<close> when the
  base URI is present and not empty, and the empty string otherwise. A payload without
  \<open>wind\<close> gives the wind \<open>{0, UNKNOWN, 0, 0}\<close>.
\<close>

theorem weather_summary_defaults:
  assumes run: "getWeatherSummary api_key res = Inr w" and body: "json res = Some data"
  shows "(chain (RawCurrent.timeZone data) zoneId = None \<longrightarrow> WeatherSummary.timeZone w = ''Unknown'')
     \<and> (WeatherSummary.isDaytime w \<longleftrightarrow> RawCurrent.isDaytime data = Some True)
     \<and> (chain (RawCurrent.weatherCondition data) RawCondition.type = None \<longrightarrow>
          WeatherCondition.type (WeatherSummary.weatherCondition w) = ''UNKNOWN'')
     \<and> (chain (chain (RawCurrent.weatherCondition data) RawCondition.description) descriptionText = None
          \<longrightarrow> WeatherCondition.description (WeatherSummary.weatherCondition w) = ''Unknown'')
     \<and> (\<not> truthy_string (chain (RawCurrent.weatherCondition data) iconBaseUri) \<longrightarrow>
          WeatherCondition.iconUrl (WeatherSummary.weatherCondition w) = [])
     \<and> (chain (RawCurrent.weatherCondition data) iconBaseUri = Some base \<longrightarrow> base \<noteq> [] \<longrightarrow>
          WeatherCondition.iconUrl (WeatherSummary.weatherCondition w) = base @ ''.png'')
     \<and> (chain (temperature data) RawDegrees.degrees = None \<longrightarrow> temperatureC w = Finite 0)
     \<and> (chain (feelsLikeTemperature data) RawDegrees.degrees = None \<longrightarrow> feelsLikeC w = Finite 0)
     \<and> (RawCurrent.uvIndex data = None \<longrightarrow> WeatherSummary.uvIndex w = Finite 0)
     \<and> (chain (chain (RawCurrent.wind data) direction) RawDirection.degrees = None \<longrightarrow>
          directionDegrees (WeatherSummary.wind w) = Finite 0)
     \<and> (chain (chain (RawCurrent.wind data) direction) cardinal = None \<longrightarrow>
          directionCardinal (WeatherSummary.wind w) = ''UNKNOWN'')
     \<and> (chain (chain (RawCurrent.wind data) speed) quantity = None \<longrightarrow>
          speedKph (WeatherSummary.wind w) = Finite 0)
     \<and> (chain (chain (RawCurrent.wind data) gust) quantity = None \<longrightarrow>
          gustKph (WeatherSummary.wind w) = Finite 0)
     \<and> (RawCurrent.wind data = None \<longrightarrow>
          WeatherSummary.wind w =
            \<lparr>directionDegrees = Finite 0, directionCardinal = ''UNKNOWN'',
             speedKph = Finite 0, gustKph = Finite 0\<rparr>)
     \<and> (RawCurrent.thunderstormProbability data = None \<longrightarrow>
          WeatherSummary.thunderstormProbability w = Finite 0)
     \<and> (chain (chain (currentConditionsHistory data) RawHistory.maxTemperature) RawDegrees.degrees = None
          \<longrightarrow> WeatherSummary.maxTempC w = Finite 0)
     \<and> (chain (chain (currentConditionsHistory data) RawHistory.minTemperature) RawDegrees.degrees = None
          \<longrightarrow> WeatherSummary.minTempC w = Finite 0)
     \<and> (chain (visibility data) distance = None \<longrightarrow> visibilityKm w = Finite 0)"
proof -
  have b: "truthy_bool v \<longleftrightarrow> v = Some True" for v by (cases v) auto
  have i: "\<not> truthy_string v \<Longrightarrow> icon_url v = []" for v by (cases v) auto
  show ?thesis
    unfolding getWeatherSummary_Inr [OF run body] by (simp add: b i)
qed

text \<open>
  A payload with a condition and a temperature and nothing else: the wind is the default
  wind, the time zone the sentinel, the icon URL the base with \<open>.png\<close>.
\<close>

theorem weather_summary_defaults_witness:
  "getWeatherSummary (Some ''key'')
       \<lparr>ok = True, httpStatus = 200, statusText = ''OK'',
        json = Some
          \<lparr>RawCurrent.currentTime = Some ''2025-10-24T21:30:59Z'', RawCurrent.timeZone = None,
           RawCurrent.isDaytime = Some True,
           RawCurrent.weatherCondition =
             Some \<lparr>RawCondition.type = Some ''CLEAR'', RawCondition.description = None,
                    iconBaseUri = Some ''https://maps.gstatic.com/weather/v1/sunny''\<rparr>,
           temperature = Some \<lparr>RawDegrees.degrees = Some (Finite 18)\<rparr>,
           feelsLikeTemperature = None, RawCurrent.uvIndex = None,
           RawCurrent.wind = None, RawCurrent.thunderstormProbability = None,
           currentConditionsHistory = None, visibility = None\<rparr>\<rparr>
     = Inr
       \<lparr>WeatherSummary.currentTime = Some ''2025-10-24T21:30:59Z'', timeZone = ''Unknown'',
        isDaytime = True,
        weatherCondition =
          \<lparr>WeatherCondition.type = ''CLEAR'', WeatherCondition.description = ''Unknown'',
           WeatherCondition.iconUrl = ''https://maps.gstatic.com/weather/v1/sunny.png''\<rparr>,
        temperatureC = Finite 18, feelsLikeC = Finite 0, uvIndex = Finite 0,
        wind = \<lparr>directionDegrees = Finite 0, directionCardinal = ''UNKNOWN'',
                speedKph = Finite 0, gustKph = Finite 0\<rparr>,
        thunderstormProbability = Finite 0, maxTempC = Finite 0, minTempC = Finite 0,
        visibilityKm = Finite 0\<rparr>"
proof -
  let ?data = "\<lparr>RawCurrent.currentTime = Some ''2025-10-24T21:30:59Z'', RawCurrent.timeZone = None,
           RawCurrent.isDaytime = Some True,
           RawCurrent.weatherCondition =
             Some \<lparr>RawCondition.type = Some ''CLEAR'', RawCondition.description = None,
                    iconBaseUri = Some ''https://maps.gstatic.com/weather/v1/sunny''\<rparr>,
           temperature = Some \<lparr>RawDegrees.degrees = Some (Finite 18)\<rparr>,
           feelsLikeTemperature = None, RawCurrent.uvIndex = None,
           RawCurrent.wind = None, RawCurrent.thunderstormProbability = None,
           currentConditionsHistory = None, visibility = None\<rparr>"
  let ?res = "\<lparr>ok = True, httpStatus = 200, statusText = ''OK'', json = Some ?data\<rparr>"
  obtain w where run: "getWeatherSummary (Some ''key'') ?res = Inr w"
    by (simp add: getWeatherSummary_def Let_def)
  have body: "json ?res = Some ?data" by simp
  note t = weather_summary_defaults
    [OF run body, of "''https://maps.gstatic.com/weather/v1/sunny''"]
  have "WeatherSummary.wind w =
          \<lparr>directionDegrees = Finite 0, directionCardinal = ''UNKNOWN'',
           speedKph = Finite 0, gustKph = Finite 0\<rparr>"
    and "WeatherSummary.timeZone w = ''Unknown''"
    and "WeatherCondition.iconUrl (WeatherSummary.weatherCondition w) =
          ''https://maps.gstatic.com/weather/v1/sunny.png''"
    using t by simp_all
  then show ?thesis using run by (simp add: getWeatherSummary_def Let_def)
qed

text \<open>
  C8 as stated fails on a payload whose condition object has the empty string as its base
  URI: the field is present, and the icon URL is the empty string, not \<open>.png\<close>. On the same
  payload, which has no \<open>currentTime\<close>, the summary's \<open>currentTime\<close> is undefined.
\<close>

theorem weather_summary_icon_counterexample:
  "getWeatherSummary (Some ''key'')
       \<lparr>ok = True, httpStatus = 200, statusText = ''OK'',
        json = Some
          \<lparr>RawCurrent.currentTime = None, RawCurrent.timeZone = None, RawCurrent.isDaytime = None,
           RawCurrent.weatherCondition =
             Some \<lparr>RawCondition.type = None, RawCondition.description = None,
                    iconBaseUri = Some []\<rparr>,
           temperature = None, feelsLikeTemperature = None, RawCurrent.uvIndex = None,
           RawCurrent.wind = None, RawCurrent.thunderstormProbability = None,
           currentConditionsHistory = None, visibility = None\<rparr>\<rparr>
     = Inr
       \<lparr>WeatherSummary.currentTime = None, timeZone = ''Unknown'', isDaytime = False,
        weatherCondition =
          \<lparr>WeatherCondition.type = ''UNKNOWN'', WeatherCondition.description = ''Unknown'',
           WeatherCondition.iconUrl = []\<rparr>,
        temperatureC = Finite 0, feelsLikeC = Finite 0, uvIndex = Finite 0,
        wind = \<lparr>directionDegrees = Finite 0, directionCardinal = ''UNKNOWN'',
                speedKph = Finite 0, gustKph = Finite 0\<rparr>,
        thunderstormProbability = Finite 0, maxTempC = Finite 0, minTempC = Finite 0,
        visibilityKm = Finite 0\<rparr>
   \<and> [] @ ''.png'' \<noteq> ([] :: string)"
  by (simp add: getWeatherSummary_def Let_def)

end
